theory Spec2Isabelle
  imports Main
begin

section \<open>Strings and POSIX paths\<close>

text \<open>
  JavaScript strings are modelled as \<open>string\<close> (lists of characters). The program only
  compares, slices and concatenates them; the one case-sensitive operation,
  \<open>toLowerCase\<close>, is modelled on the ASCII letters.
\<close>

definition startsWith :: "string \<Rightarrow> string \<Rightarrow> bool" where
  "startsWith s p = (take (length p) s = p)"

definition endsWith :: "string \<Rightarrow> string \<Rightarrow> bool" where
  "endsWith s p = (drop (length s - length p) s = p \<and> length p \<le> length s)"

text \<open>\<open>s.slice(n)\<close> for \<open>n \<ge> 0\<close> and \<open>s.slice(-n)\<close>.\<close>

definition slice_from :: "string \<Rightarrow> nat \<Rightarrow> string" where
  "slice_from s n = drop n s"

definition slice_last :: "string \<Rightarrow> nat \<Rightarrow> string" where
  "slice_last s n = drop (length s - n) s"

text \<open>\<open>s.includes(t)\<close>: \<open>t\<close> occurs in \<open>s\<close> as a contiguous run.\<close>

fun str_includes :: "string \<Rightarrow> string \<Rightarrow> bool" where
  "str_includes [] t = (t = [])"
| "str_includes (c # s) t = (startsWith (c # s) t \<or> str_includes s t)"

definition lower_char :: "char \<Rightarrow> char" where
  "lower_char c =
     (case map_of (zip ''ABCDEFGHIJKLMNOPQRSTUVWXYZ'' ''abcdefghijklmnopqrstuvwxyz'') c of
        None \<Rightarrow> c
      | Some d \<Rightarrow> d)"

definition toLowerCase :: "string \<Rightarrow> string" where
  "toLowerCase s = map lower_char s"

fun split_on :: "char \<Rightarrow> string \<Rightarrow> string list" where
  "split_on c [] = [[]]"
| "split_on c (x # xs) =
     (if x = c then [] # split_on c xs
      else (case split_on c xs of [] \<Rightarrow> [[x]] | y # ys \<Rightarrow> (x # y) # ys))"

fun join_with :: "string \<Rightarrow> string list \<Rightarrow> string" where
  "join_with sep [] = []"
| "join_with sep [s] = s"
| "join_with sep (s # t # ss) = s @ sep @ join_with sep (t # ss)"

text \<open>
  The functions of Node's \<open>path/posix\<close> module that the program calls. They are library
  code; the definitions follow the module's algorithm on the segments between slashes.
  \<open>normalizeSegs\<close> keeps the segments already emitted in reverse: empty segments and
  \<open>.\<close> are dropped, \<open>..\<close> removes the previous segment, and above the start it is kept
  only when \<open>allowAboveRoot\<close> holds.
\<close>

fun normalizeSegs :: "bool \<Rightarrow> string list \<Rightarrow> string list \<Rightarrow> string list" where
  "normalizeSegs allowAboveRoot acc [] = rev acc"
| "normalizeSegs allowAboveRoot acc (s # ss) =
     (if s = [] \<or> s = ''.'' then normalizeSegs allowAboveRoot acc ss
      else if s = ''..'' then
        (case acc of
           [] \<Rightarrow> normalizeSegs allowAboveRoot (if allowAboveRoot then [''..''] else []) ss
         | a # as \<Rightarrow>
             if a = ''..'' then
               normalizeSegs allowAboveRoot (if allowAboveRoot then ''..'' # acc else acc) ss
             else normalizeSegs allowAboveRoot as ss)
      else normalizeSegs allowAboveRoot (s # acc) ss)"

definition normalizeString :: "string \<Rightarrow> bool \<Rightarrow> string" where
  "normalizeString p allowAboveRoot =
     join_with ''/'' (normalizeSegs allowAboveRoot [] (split_on CHR ''/'' p))"

definition normalize :: "string \<Rightarrow> string" where
  "normalize p =
     (if p = [] then ''.''
      else
        let isAbsolute = (hd p = CHR ''/'');
            trailingSeparator = (last p = CHR ''/'');
            q = normalizeString p (\<not> isAbsolute)
        in if q = [] then (if isAbsolute then ''/'' else if trailingSeparator then ''./'' else ''.'')
           else (if isAbsolute then ''/'' else []) @ q @ (if trailingSeparator then ''/'' else []))"

definition join :: "string list \<Rightarrow> string" where
  "join args =
     (case filter (\<lambda>a. a \<noteq> []) args of
        [] \<Rightarrow> ''.''
      | parts \<Rightarrow> normalize (join_with ''/'' parts))"

text \<open>
  \<open>path.resolve\<close> reads its arguments from the right until one is absolute and falls
  back on the working directory \<open>cwd\<close> (the value of \<open>process.cwd()\<close>).
\<close>

fun resolve_acc :: "string list \<Rightarrow> string \<Rightarrow> string \<times> bool" where
  "resolve_acc [] acc = (acc, False)"
| "resolve_acc (p # ps) acc =
     (if p = [] then resolve_acc ps acc
      else if hd p = CHR ''/'' then (p @ ''/'' @ acc, True)
      else resolve_acc ps (p @ ''/'' @ acc))"

definition resolve :: "string \<Rightarrow> string list \<Rightarrow> string" where
  "resolve cwd args =
     (let (resolvedPath, resolvedAbsolute) = resolve_acc (rev (cwd # args)) [];
          q = normalizeString resolvedPath (\<not> resolvedAbsolute)
      in if resolvedAbsolute then ''/'' @ q else if q \<noteq> [] then q else ''.'')"

text \<open>
  \<open>path.extname\<close> looks at the last component of the path, trailing slashes removed:
  the extension runs from its last dot to its end, and is empty when there is no dot,
  when the last dot is the component's first character, or when the component is \<open>..\<close>.
\<close>

definition last_component :: "string \<Rightarrow> string" where
  "last_component p =
     rev (takeWhile (\<lambda>c. c \<noteq> CHR ''/'') (dropWhile (\<lambda>c. c = CHR ''/'') (rev p)))"

definition extname :: "string \<Rightarrow> string" where
  "extname p =
     (let b = last_component p;
          ext = rev (takeWhile (\<lambda>c. c \<noteq> CHR ''.'') (rev b))
      in if CHR ''.'' \<notin> set b then []
         else if length b = length ext + 1 then []
         else if b = ''..'' then []
         else CHR ''.'' # ext)"

text \<open>
  \<open>path.dirname\<close>: everything lead the last slash that is followed by a component;
  \<open>/\<close> for a component directly under the root, \<open>.\<close> when there is no slash.
\<close>

definition dirname :: "string \<Rightarrow> string" where
  "dirname p =
     (if p = [] then ''.''
      else
        let hasRoot = (hd p = CHR ''/'');
            body = rev (dropWhile (\<lambda>c. c = CHR ''/'') (rev (tl p)));
            lead = rev (dropWhile (\<lambda>c. c \<noteq> CHR ''/'') (rev body))
        in if lead = [] then (if hasRoot then ''/'' else ''.'')
           else if hasRoot \<and> length lead = 1 then ''//''
           else hd p # butlast lead)"

section \<open>Errors\<close>

text \<open>
  Every way in which a step of the program can throw. \<open>ReferenceError x\<close> is JavaScript's
  error for reading the undeclared variable \<open>x\<close>; \<open>TypeError\<close> is raised when a string
  method is called on a value that is not a string; \<open>FsError p\<close> is a failed file-system
  call on path \<open>p\<close>; the remaining ones come from the external collaborators
  (source transformer, parser, Node's module resolution).
\<close>

datatype error =
    ReferenceError string
  | TypeError
  | FsError string
  | TransformError
  | ParseError
  | ModuleNotFound string

section \<open>Syntax trees\<close>

text \<open>
  The parser's ESTree output, restricted to what the program inspects. A literal's value
  is a string or something else, of which only the truthiness is ever used. Template
  literals always have a first quasi. \<open>Node t cs\<close> stands for every node type without a
  constructor of its own (statements, patterns, other expressions), with its child nodes
  in property order. Import and export declarations are the elements of
  \<open>Program.body\<close>, as in the grammar.
\<close>

datatype lit = LString string | LNonString bool

datatype template_element =
  TemplateElement (raw: string) (cooked: "string option") (tail: bool)

datatype expr =
    Identifier string
  | Literal lit string
  | TemplateLiteral template_element "template_element list" "expr list"
  | TaggedTemplateExpression expr template_element "template_element list" "expr list"
  | MemberExpression expr expr
  | CallExpression expr "expr list"
  | ImportExpression expr
  | TSExternalModuleReference expr
  | VariableDeclaration "expr list" string
  | VariableDeclarator expr "expr option"
  | ObjectPattern "expr list"
  | Property expr bool expr string bool bool
  | Node string "expr list"

datatype import_spec =
    ImportSpecifier string string
  | ImportDefaultSpecifier string
  | ImportNamespaceSpecifier string

datatype module_item =
    ImportDeclaration "string option" "import_spec list" lit string
  | ExportNamedDeclaration "expr option" "(string \<times> string) list" "(lit \<times> string) option"
  | ExportAllDeclaration lit string
  | ExportDefaultDeclaration expr
  | Statement expr

datatype program = Program "module_item list"

text \<open>
  The fields are, in order: \<open>Literal value raw\<close>;
  \<open>TemplateLiteral quasis[0] quasis[1..] expressions\<close>;
  \<open>TaggedTemplateExpression tag quasi.quasis[0] quasi.quasis[1..] quasi.expressions\<close>;
  \<open>MemberExpression object property\<close>; \<open>CallExpression callee arguments\<close>;
  \<open>VariableDeclaration declarations kind\<close>; \<open>VariableDeclarator id init\<close>;
  \<open>Property key computed value kind method shorthand\<close>;
  \<open>ImportSpecifier local imported\<close> (the names of the two identifiers);
  \<open>ImportDeclaration importKind specifiers source.value source.raw\<close>;
  \<open>ExportNamedDeclaration declaration specifiers source\<close>.
\<close>

text \<open>JavaScript truthiness of a literal's value, and \<open>node.value\<close> of an arbitrary node.\<close>

fun truthy :: "lit \<Rightarrow> bool" where
  "truthy (LString s) = (s \<noteq> [])"
| "truthy (LNonString b) = b"

fun value_of :: "expr \<Rightarrow> lit option" where
  "value_of (Literal v r) = Some v"
| "value_of (Property k c v kd m sh) = Some (LNonString True)"
| "value_of _ = None"

text \<open>The test \<open>tag\<close> is the member expression \<open>String.raw\<close>.\<close>

fun isStringRaw :: "expr \<Rightarrow> bool" where
  "isStringRaw (MemberExpression (Identifier obj) (Identifier prop)) =
     (obj = ''String'' \<and> prop = ''raw'')"
| "isStringRaw _ = False"

section \<open>Canonical specifiers\<close>

definition ensureMJS :: "string \<Rightarrow> string" where
  "ensureMJS dependencyPath =
     (if startsWith dependencyPath ''.'' \<or> startsWith dependencyPath ''/'' then
        (if extname dependencyPath \<noteq> ''.mjs'' then dependencyPath @ ''.mjs''
         else dependencyPath)
      else dependencyPath)"

definition ensureCJS :: "string \<Rightarrow> string" where
  "ensureCJS dependencyPath =
     (if startsWith dependencyPath ''.'' \<or> startsWith dependencyPath ''/'' then
        (if extname dependencyPath \<noteq> ''.cjs'' then dependencyPath @ ''.cjs''
         else dependencyPath)
      else dependencyPath)"

definition quoted :: "string \<Rightarrow> string" where
  "quoted v =
     (if CHR 0x27 \<in> set v then [CHR 0x22] @ v @ [CHR 0x22] else [CHR 0x27] @ v @ [CHR 0x27])"

definition asLiteral :: "string \<Rightarrow> expr" where
  "asLiteral v = Literal (LString v) (quoted v)"

definition isRequire :: "expr \<Rightarrow> bool" where
  "isRequire node =
     (case node of CallExpression (Identifier n) args \<Rightarrow> n = ''require'' | _ \<Rightarrow> False)"

section \<open>Rewriting expressions\<close>

text \<open>
  \<open>updateImports\<close> walks the tree with \<open>traverse\<close>: the callback runs on a node first,
  then the walk descends into the node's properties as the callback left them. On
  expressions the callback replaces an \<open>import()\<close> source or the first argument of a
  \<open>require\<close> call; the replacement is a literal (no children) or keeps the template's
  embedded expressions, which are then visited. \<open>updateExpr\<close> is that walk: the
  callback's effect on the node, then the walk over the children.

  \<open>ensureMJS\<close> and \<open>ensureCJS\<close> call \<open>startsWith\<close> on their argument and throw a
  \<open>TypeError\<close> when it is not a string (a numeric literal, \<open>null\<close>, a null cooked
  template). The callback is an \<open>async\<close> function whose result \<open>traverse\<close> does not
  await: such a throw, which comes before any assignment to the node, rejects a promise
  that nobody reads. The node stays as it was and the walk goes on.
\<close>

definition newQuasi :: "string \<Rightarrow> template_element" where
  "newQuasi v = TemplateElement v (Some v) True"

fun updateExpr :: "expr \<Rightarrow> expr"
  and updateExprs :: "expr list \<Rightarrow> expr list" where
  "updateExpr (Identifier n) = Identifier n"
| "updateExpr (Literal v r) = Literal v r"
| "updateExpr (TemplateLiteral q qs es) = TemplateLiteral q qs (updateExprs es)"
| "updateExpr (TaggedTemplateExpression tag q qs es) =
     TaggedTemplateExpression (updateExpr tag) q qs (updateExprs es)"
| "updateExpr (MemberExpression obj prop) = MemberExpression (updateExpr obj) (updateExpr prop)"
| "updateExpr (ImportExpression src) =
     (case src of
        Literal v r \<Rightarrow>
          (case v of
             LString s \<Rightarrow>
               if s \<noteq> [] then ImportExpression (asLiteral (ensureMJS s))
               else ImportExpression src
           | LNonString b \<Rightarrow> ImportExpression src)
      | TemplateLiteral q qs es \<Rightarrow>
          (case cooked q of
             Some s \<Rightarrow>
               ImportExpression (TemplateLiteral (newQuasi (ensureMJS s)) [] (updateExprs es))
           | None \<Rightarrow> ImportExpression (TemplateLiteral q qs (updateExprs es)))
      | TaggedTemplateExpression tag q qs es \<Rightarrow>
          (if isStringRaw tag then
             (case cooked q of
                Some s \<Rightarrow>
                  ImportExpression
                    (TaggedTemplateExpression tag (newQuasi (ensureMJS s)) [] (updateExprs es))
              | None \<Rightarrow> ImportExpression (TaggedTemplateExpression tag q qs (updateExprs es)))
           else ImportExpression (updateExpr src))
      | _ \<Rightarrow> ImportExpression (updateExpr src))"
| "updateExpr (CallExpression callee args) =
     (case args of
        [] \<Rightarrow> CallExpression (updateExpr callee) []
      | a # rest \<Rightarrow>
          (if isRequire (CallExpression callee args) then
             (case a of
                Literal v r \<Rightarrow>
                  (case v of
                     LString s \<Rightarrow>
                       CallExpression callee (asLiteral (ensureMJS s) # updateExprs rest)
                   | LNonString b \<Rightarrow> CallExpression callee (a # updateExprs rest))
              | TemplateLiteral q qs es \<Rightarrow>
                  (case cooked q of
                     Some s \<Rightarrow>
                       CallExpression callee
                         (TemplateLiteral (newQuasi (ensureCJS s)) [] (updateExprs es)
                          # updateExprs rest)
                   | None \<Rightarrow>
                       CallExpression callee
                         (TemplateLiteral q qs (updateExprs es) # updateExprs rest))
              | TaggedTemplateExpression tag q qs es \<Rightarrow>
                  (if isStringRaw tag then
                     (case cooked q of
                        Some s \<Rightarrow>
                          CallExpression callee
                            (TaggedTemplateExpression tag (newQuasi (ensureMJS s)) []
                               (updateExprs es)
                             # updateExprs rest)
                      | None \<Rightarrow>
                          CallExpression callee
                            (TaggedTemplateExpression tag q qs (updateExprs es)
                             # updateExprs rest))
                   else CallExpression callee (updateExprs args))
              | _ \<Rightarrow> CallExpression callee (updateExprs args))
           else CallExpression (updateExpr callee) (updateExprs args)))"
| "updateExpr (TSExternalModuleReference x) = TSExternalModuleReference (updateExpr x)"
| "updateExpr (VariableDeclaration ds kind) = VariableDeclaration (updateExprs ds) kind"
| "updateExpr (VariableDeclarator i None) = VariableDeclarator (updateExpr i) None"
| "updateExpr (VariableDeclarator i (Some x)) =
     VariableDeclarator (updateExpr i) (Some (updateExpr x))"
| "updateExpr (ObjectPattern ps) = ObjectPattern (updateExprs ps)"
| "updateExpr (Property k c v kd m sh) = Property (updateExpr k) c (updateExpr v) kd m sh"
| "updateExpr (Node t cs) = Node t (updateExprs cs)"
| "updateExprs [] = []"
| "updateExprs (x # xs) = updateExpr x # updateExprs xs"

section \<open>File system and collaborators\<close>

text \<open>
  The file system is a tree: a file with its content, a directory with its entries in
  listing order, or anything else (socket, link, device). Paths handed to it are the
  absolute, normalised paths the program builds with \<open>path.resolve\<close>, possibly with a
  suffix appended; they are looked up segment by segment.
\<close>

datatype fsnode = File string | Dir "(string \<times> fsnode) list" | Special

fun fs_walk :: "fsnode \<Rightarrow> string list \<Rightarrow> fsnode option" where
  "fs_walk n [] = Some n"
| "fs_walk (Dir entries) (s # ss) =
     (case map_of entries s of None \<Rightarrow> None | Some n \<Rightarrow> fs_walk n ss)"
| "fs_walk (File c) (s # ss) = None"
| "fs_walk Special (s # ss) = None"

definition segments :: "string \<Rightarrow> string list" where
  "segments p = filter (\<lambda>s. s \<noteq> []) (split_on CHR ''/'' p)"

definition fs_lookup :: "fsnode \<Rightarrow> string \<Rightarrow> fsnode option" where
  "fs_lookup root p = fs_walk root (segments p)"

text \<open>\<open>(await fs.promises.lstat(p)).isFile()\<close> inside \<open>try\<close>/\<open>catch\<close>: false when \<open>lstat\<close> throws.\<close>

definition lstat_isFile :: "fsnode \<Rightarrow> string \<Rightarrow> bool" where
  "lstat_isFile root p = (case fs_lookup root p of Some (File c) \<Rightarrow> True | _ \<Rightarrow> False)"

fun isFile :: "fsnode \<Rightarrow> bool" where
  "isFile (File c) = True"
| "isFile _ = False"

fun isDirectory :: "fsnode \<Rightarrow> bool" where
  "isDirectory (Dir es) = True"
| "isDirectory _ = False"

text \<open>\<open>fs.promises.readdir(p, {withFileTypes: true})\<close> and \<open>fs.promises.readFile(p, "utf8")\<close>.\<close>

definition readdir :: "fsnode \<Rightarrow> string \<Rightarrow> error + (string \<times> fsnode) list" where
  "readdir root p = (case fs_lookup root p of Some (Dir es) \<Rightarrow> Inr es | _ \<Rightarrow> Inl (FsError p))"

definition readFile :: "fsnode \<Rightarrow> string \<Rightarrow> error + string" where
  "readFile root p = (case fs_lookup root p of Some (File c) \<Rightarrow> Inr c | _ \<Rightarrow> Inl (FsError p))"

text \<open>
  What a build reads from outside the program: the working directory, the file system,
  Node's list of builtin modules, the source transformer (source text, whether JSX is
  enabled, file path), the parser, the code emitter, Node's resolution of an external
  specifier to a file (\<open>import.meta.resolve\<close> followed by \<open>fileURLToPath\<close>), and the
  random identifiers: \<open>randomUUID raw i\<close> is the value \<open>randomUUID()\<close> returns when the
  shim for statement \<open>i\<close> of the file reached as \<open>raw\<close> is built.
\<close>

record env =
  cwd :: string
  fs :: fsnode
  builtinModules :: "string list"
  transform :: "string \<Rightarrow> bool \<Rightarrow> string \<Rightarrow> error + string"
  parseModule :: "string \<Rightarrow> error + program"
  generate :: "program \<Rightarrow> string"
  resolveModule :: "string \<Rightarrow> error + string"
  randomUUID :: "string \<Rightarrow> nat \<Rightarrow> string"

section \<open>Module-type classification\<close>

text \<open>
  The type names of the nodes of a tree, in the order the walk meets them. Both
  classifiers search the tree for a node whose type is module-only.
\<close>

definition MODULE_ONLY_NODE_TYPE_SET :: "string list" where
  "MODULE_ONLY_NODE_TYPE_SET =
     [''ExportAllDeclaration'', ''ExportDefaultDeclaration'', ''ExportNamedDeclaration'',
      ''ExportSpecifier'', ''ImportAttribute'', ''ImportDeclaration'',
      ''ImportDefaultSpecifier'', ''ImportNamespaceSpecifier'', ''ImportSpecifier'']"

fun nodeTypes :: "expr \<Rightarrow> string list"
  and nodeTypesList :: "expr list \<Rightarrow> string list" where
  "nodeTypes (Identifier n) = [''Identifier'']"
| "nodeTypes (Literal v r) = [''Literal'']"
| "nodeTypes (TemplateLiteral q qs es) =
     ''TemplateLiteral'' # map (\<lambda>q. ''TemplateElement'') (q # qs) @ nodeTypesList es"
| "nodeTypes (TaggedTemplateExpression tag q qs es) =
     ''TaggedTemplateExpression'' # nodeTypes tag
       @ ''TemplateLiteral'' # map (\<lambda>q. ''TemplateElement'') (q # qs) @ nodeTypesList es"
| "nodeTypes (MemberExpression obj prop) = ''MemberExpression'' # nodeTypes obj @ nodeTypes prop"
| "nodeTypes (CallExpression callee args) =
     ''CallExpression'' # nodeTypes callee @ nodeTypesList args"
| "nodeTypes (ImportExpression src) = ''ImportExpression'' # nodeTypes src"
| "nodeTypes (TSExternalModuleReference x) = ''TSExternalModuleReference'' # nodeTypes x"
| "nodeTypes (VariableDeclaration ds kind) = ''VariableDeclaration'' # nodeTypesList ds"
| "nodeTypes (VariableDeclarator i None) = ''VariableDeclarator'' # nodeTypes i"
| "nodeTypes (VariableDeclarator i (Some x)) = ''VariableDeclarator'' # nodeTypes i @ nodeTypes x"
| "nodeTypes (ObjectPattern ps) = ''ObjectPattern'' # nodeTypesList ps"
| "nodeTypes (Property k c v kd m sh) = ''Property'' # nodeTypes k @ nodeTypes v"
| "nodeTypes (Node t cs) = t # nodeTypesList cs"
| "nodeTypesList [] = []"
| "nodeTypesList (x # xs) = nodeTypes x @ nodeTypesList xs"

fun specifierType :: "import_spec \<Rightarrow> string" where
  "specifierType (ImportSpecifier l i) = ''ImportSpecifier''"
| "specifierType (ImportDefaultSpecifier l) = ''ImportDefaultSpecifier''"
| "specifierType (ImportNamespaceSpecifier l) = ''ImportNamespaceSpecifier''"

fun itemTypes :: "module_item \<Rightarrow> string list" where
  "itemTypes (ImportDeclaration kind specs v r) =
     ''ImportDeclaration'' # map specifierType specs @ [''Literal'']"
| "itemTypes (ExportNamedDeclaration d specs src) =
     ''ExportNamedDeclaration'' # (case d of None \<Rightarrow> [] | Some x \<Rightarrow> nodeTypes x)
       @ map (\<lambda>s. ''ExportSpecifier'') specs @ (case src of None \<Rightarrow> [] | Some l \<Rightarrow> [''Literal''])"
| "itemTypes (ExportAllDeclaration v r) = [''ExportAllDeclaration'', ''Literal'']"
| "itemTypes (ExportDefaultDeclaration d) = ''ExportDefaultDeclaration'' # nodeTypes d"
| "itemTypes (Statement x) = nodeTypes x"

fun programTypes :: "program \<Rightarrow> string list" where
  "programTypes (Program body) = ''Program'' # concat (map itemTypes body)"

datatype Method = Import | Require

text \<open>
  \<open>determineModuleType\<close> of \<open>utils.ts\<close>: the last four characters of the path, lowercased,
  decide for \<open>.mjs\<close>, \<open>.mts\<close>, \<open>.cjs\<close> and \<open>.cts\<close>; otherwise the file is read and parsed
  and searched for a module-only node.
\<close>

definition determineModuleType :: "env \<Rightarrow> string \<Rightarrow> error + Method" where
  "determineModuleType E filePath =
     (let lowercaseExtension = toLowerCase (slice_last filePath 4)
      in if lowercaseExtension = ''.mjs'' \<or> lowercaseExtension = ''.mts'' then Inr Import
         else if lowercaseExtension = ''.cjs'' \<or> lowercaseExtension = ''.cts'' then Inr Require
         else
           (case readFile (fs E) filePath of Inl e \<Rightarrow> Inl e | Inr content \<Rightarrow>
            (case parseModule E content of Inl e \<Rightarrow> Inl e | Inr ast \<Rightarrow>
               Inr (if \<exists>t \<in> set (programTypes ast). t \<in> set MODULE_ONLY_NODE_TYPE_SET
                    then Import else Require))))"

text \<open>
  The classifier that the rewriter uses for external dependencies. It returns the
  extension string of the format.
\<close>

definition determineModuleTypeFromString :: "env \<Rightarrow> string \<Rightarrow> error + string" where
  "determineModuleTypeFromString E fileString =
     (case parseModule E fileString of Inl e \<Rightarrow> Inl e | Inr ast \<Rightarrow>
        Inr (if \<exists>t \<in> set (programTypes ast).
                  t \<in> set [''ExportAllDeclaration'', ''ExportDefaultDeclaration'',
                             ''ExportNamedDeclaration'', ''ExportSpecifier'', ''ImportAttribute'',
                             ''ImportDeclaration'', ''ImportDefaultSpecifier'',
                             ''ImportNamespaceSpecifier'', ''ImportSpecifier'']
             then ''.mjs'' else ''.cjs''))"

definition determineModuleTypeFromPath :: "env \<Rightarrow> string \<Rightarrow> error + string" where
  "determineModuleTypeFromPath E dependencyEntryFilePath =
     (let lowercaseExtension = slice_last (toLowerCase dependencyEntryFilePath) 4
      in if lowercaseExtension = ''.cjs'' \<or> lowercaseExtension = ''.mjs'' then Inr lowercaseExtension
         else
           (case readFile (fs E) dependencyEntryFilePath of Inl e \<Rightarrow> Inl e
            | Inr content \<Rightarrow> determineModuleTypeFromString E content))"

section \<open>Output paths\<close>

text \<open>
  The common root: starting from the entry file's path, go up one directory at a time
  until every discovered file lies below the candidate, or the candidate is \<open>/\<close>.
\<close>

partial_function (option) commonRoot :: "string list \<Rightarrow> string \<Rightarrow> string option" where
  "commonRoot inputFiles commonRootPath =
     (if commonRootPath = ''/'' then Some commonRootPath
      else
        let up = join [commonRootPath, ''..''];
            ensureSlash = up @ ''/''
        in if list_all (\<lambda>inputFile. startsWith inputFile ensureSlash) inputFiles then Some up
           else commonRoot inputFiles up)"

declare commonRoot.simps [code]

text \<open>The path a discovered file is written to.\<close>

definition outputFilePath :: "string \<Rightarrow> string \<Rightarrow> string \<Rightarrow> string \<Rightarrow> string" where
  "outputFilePath outputDirectory commonRootPath inputFile outputFormat =
     (let outputPath = outputDirectory @ ''/'' @ slice_from inputFile (length commonRootPath + 1);
          ext = extname outputPath;
          outputPath' =
            (if ext \<noteq> outputFormat
             then take (length outputPath - length ext) outputPath @ outputFormat
             else outputPath)
      in join [outputDirectory, outputPath'])"

section \<open>Resolving a raw path to a file\<close>

text \<open>
  \<open>findActualFilePath\<close>. The two \<open>Set\<close>s are lists without repetition in insertion
  order (\<open>values().next().value\<close> is the first element). The final \<open>throw\<close> builds its
  message from \<open>entryMethod\<close>, which is neither a parameter nor a variable of any
  enclosing scope of this function: evaluating the message throws
  \<open>ReferenceError: entryMethod is not defined\<close> before any \<open>Error\<close> is constructed.
\<close>

definition set_add :: "'a list \<Rightarrow> 'a \<Rightarrow> 'a list" where
  "set_add xs x = (if x \<in> set xs then xs else xs @ [x])"

definition EXTENSION_ORDER :: "string \<Rightarrow> string list" where
  "EXTENSION_ORDER likelyExtension =
     [likelyExtension, ''.tsx'', ''.ts'', ''.mjs'', ''.cjs'', ''.jsx'', ''.js'']"

definition sameStem :: "string \<Rightarrow> (string \<times> fsnode) list \<Rightarrow> string list" where
  "sameStem filename entries =
     fold (\<lambda>(name, node) anyExt.
             if (name = filename \<or> startsWith name (filename @ ''.'')) \<and> isFile node
             then set_add anyExt name else anyExt) entries []"

definition hasSubdirectory :: "string \<Rightarrow> (string \<times> fsnode) list \<Rightarrow> bool" where
  "hasSubdirectory filename entries =
     (\<exists>(name, node) \<in> set entries.
        (name = filename \<or> startsWith name (filename @ ''.'')) \<and> \<not> isFile node
        \<and> isDirectory node \<and> name = filename)"

definition subIndex :: "(string \<times> fsnode) list \<Rightarrow> string list" where
  "subIndex entries =
     fold (\<lambda>(name, node) subAnyExt.
             if (name = ''index'' \<or> startsWith name ''index.'') \<and> isFile node
             then set_add subAnyExt name else subAnyExt) entries []"

definition pickCandidate :: "string \<Rightarrow> string \<Rightarrow> string \<Rightarrow> string list \<Rightarrow> string list
    \<Rightarrow> error + string" where
  "pickCandidate filePath filename likelyExtension anyExt subAnyExt =
     (if likelyExtension \<noteq> [] \<and> filename @ likelyExtension \<in> set anyExt
        then Inr (filePath @ likelyExtension)
      else if likelyExtension \<noteq> [] \<and> ''index'' @ likelyExtension \<in> set subAnyExt
        then Inr (filePath @ ''/index'' @ likelyExtension)
      else
        (case find (\<lambda>EXT. ''index'' @ EXT \<in> set subAnyExt) (EXTENSION_ORDER likelyExtension) of
           Some EXT \<Rightarrow> Inr (filePath @ ''/index'' @ EXT)
         | None \<Rightarrow>
        (case find (\<lambda>EXT. filename @ EXT \<in> set anyExt) (EXTENSION_ORDER likelyExtension) of
           Some EXT \<Rightarrow> Inr (filePath @ EXT)
         | None \<Rightarrow>
             if ''index'' \<in> set subAnyExt then Inr (filePath @ ''/index'')
             else if length subAnyExt = 1 then Inr (filePath @ ''/index'' @ hd subAnyExt)
             else if length anyExt = 1 then Inr (filePath @ hd anyExt)
             else Inl (ReferenceError ''entryMethod''))))"

definition findActualFilePath :: "fsnode \<Rightarrow> string \<Rightarrow> string \<Rightarrow> error + string" where
  "findActualFilePath root filePath likelyExtension =
     (if lstat_isFile root filePath then Inr filePath
      else
        let dir = dirname filePath;
            filename = slice_from filePath (length dir + 1)
        in (case readdir root dir of Inl e \<Rightarrow> Inl e | Inr entries \<Rightarrow>
            (case (if hasSubdirectory filename entries
                   then (case readdir root filePath of Inl e \<Rightarrow> Inl e
                         | Inr sub \<Rightarrow> Inr (subIndex sub))
                   else Inr [])
             of Inl e \<Rightarrow> Inl e
              | Inr subAnyExt \<Rightarrow>
                  pickCandidate filePath filename likelyExtension
                    (sameStem filename entries) subAnyExt)))"

section \<open>Reading dependencies\<close>

definition isNodeBuiltin :: "string list \<Rightarrow> string \<Rightarrow> bool" where
  "isNodeBuiltin builtins dependency =
     (if startsWith dependency ''node:'' then True
      else if dependency = ''test'' then False
      else dependency \<in> set builtins)"

text \<open>The callee \<open>require.main.require\<close>.\<close>

fun isRequireMainRequire :: "expr \<Rightarrow> bool" where
  "isRequireMainRequire
     (MemberExpression (MemberExpression (Identifier a) (Identifier b)) (Identifier c)) =
     (a = ''require'' \<and> b = ''main'' \<and> c = ''require'')"
| "isRequireMainRequire _ = False"

text \<open>
  What the callback of \<open>readForDependencies\<close> pushes at a call expression: the value of
  the first argument and the mechanism. The value of a dependency is recorded as it is
  (\<open>None\<close> is \<open>undefined\<close>); only \<open>require(...)\<close> checks that it is truthy.
\<close>

definition callDependency :: "expr \<Rightarrow> expr list \<Rightarrow> (lit option \<times> Method) list" where
  "callDependency callee args =
     (case args of
        [] \<Rightarrow> []
      | a # rest \<Rightarrow>
          if isRequire (CallExpression callee args) then
            (let result =
               (case a of
                  Literal v r \<Rightarrow> Some v
                | TemplateLiteral q qs es \<Rightarrow> map_option LString (cooked q)
                | TaggedTemplateExpression tag q qs es \<Rightarrow>
                    if isStringRaw tag then map_option LString (cooked q) else None
                | _ \<Rightarrow> None)
             in (case result of
                   None \<Rightarrow> []
                 | Some v \<Rightarrow> if truthy v then [(Some v, Require)] else []))
          else if isRequireMainRequire callee then [(value_of a, Require)]
          else [])"

definition truthySource :: "expr \<Rightarrow> (lit option \<times> Method) list" where
  "truthySource src =
     (case value_of src of
        None \<Rightarrow> []
      | Some v \<Rightarrow> if truthy v then [(Some v, Import)] else [])"

fun depsExpr :: "expr \<Rightarrow> (lit option \<times> Method) list"
  and depsExprs :: "expr list \<Rightarrow> (lit option \<times> Method) list" where
  "depsExpr (Identifier n) = []"
| "depsExpr (Literal v r) = []"
| "depsExpr (TemplateLiteral q qs es) = depsExprs es"
| "depsExpr (TaggedTemplateExpression tag q qs es) = depsExpr tag @ depsExprs es"
| "depsExpr (MemberExpression obj prop) = depsExpr obj @ depsExpr prop"
| "depsExpr (CallExpression callee args) =
     callDependency callee args @ depsExpr callee @ depsExprs args"
| "depsExpr (ImportExpression src) = truthySource src @ depsExpr src"
| "depsExpr (TSExternalModuleReference x) = truthySource x @ depsExpr x"
| "depsExpr (VariableDeclaration ds kind) = depsExprs ds"
| "depsExpr (VariableDeclarator i None) = depsExpr i"
| "depsExpr (VariableDeclarator i (Some x)) = depsExpr i @ depsExpr x"
| "depsExpr (ObjectPattern ps) = depsExprs ps"
| "depsExpr (Property k c v kd m sh) = depsExpr k @ depsExpr v"
| "depsExpr (Node t cs) = depsExprs cs"
| "depsExprs [] = []"
| "depsExprs (x # xs) = depsExpr x @ depsExprs xs"

fun depsItem :: "module_item \<Rightarrow> (lit option \<times> Method) list" where
  "depsItem (ImportDeclaration kind specs v r) =
     (if kind = Some ''type'' then [] else if truthy v then [(Some v, Import)] else [])"
| "depsItem (ExportNamedDeclaration d specs src) =
     (case src of None \<Rightarrow> [] | Some (v, r) \<Rightarrow> if truthy v then [(Some v, Import)] else [])
       @ (case d of None \<Rightarrow> [] | Some x \<Rightarrow> depsExpr x)"
| "depsItem (ExportAllDeclaration v r) = (if truthy v then [(Some v, Import)] else [])"
| "depsItem (ExportDefaultDeclaration d) = depsExpr d"
| "depsItem (Statement x) = depsExpr x"

fun readForDependencies :: "program \<Rightarrow> (lit option \<times> Method) list" where
  "readForDependencies (Program body) = concat (map depsItem body)"

text \<open>
  \<open>readForDependencies(ast).filter(([dependency]) => !isNodeBuiltin(dependency))\<close>:
  \<open>isNodeBuiltin\<close> calls \<open>startsWith\<close> on the dependency and throws for a non-string.
\<close>

fun dropBuiltins :: "string list \<Rightarrow> (lit option \<times> Method) list \<Rightarrow> error + (string \<times> Method) list"
  where
  "dropBuiltins builtins [] = Inr []"
| "dropBuiltins builtins ((Some (LString d), m) # ds) =
     (case dropBuiltins builtins ds of
        Inl e \<Rightarrow> Inl e
      | Inr r \<Rightarrow> Inr (if isNodeBuiltin builtins d then r else (d, m) # r))"
| "dropBuiltins builtins ((Some (LNonString b), m) # ds) = Inl TypeError"
| "dropBuiltins builtins ((None, m) # ds) = Inl TypeError"

section \<open>Discovering the files\<close>

datatype entry_method = Entry | Edge Method

record frame =
  filePath :: string
  likelyExtension :: string
  entryMethod :: entry_method

record sourceFile =
  rawInputFile :: string
  inputFile :: string
  outputFormat :: string

text \<open>\<open>if (code.startsWith("#!")) code = code.slice(code.indexOf("\n") + 1)\<close>.\<close>

definition stripShebang :: "string \<Rightarrow> string" where
  "stripShebang code =
     (if startsWith code ''#!'' then
        (if CHR 0x0A \<in> set code then tl (dropWhile (\<lambda>c. c \<noteq> CHR 0x0A) code) else code)
      else code)"

text \<open>
  One iteration of the loop of \<open>build\<close> for a frame whose path is not yet explored.
  Steps 1 to 5 depend on the frame's path only: \<open>findActualFilePath\<close> is called with
  the path alone, so its second parameter takes its default value, the empty string.
  They give the actual path, the tree and the dependencies that are not builtins.
\<close>

definition loadSource :: "env \<Rightarrow> string \<Rightarrow> error + (string \<times> program \<times> (string \<times> Method) list)"
  where
  "loadSource E path =
     (case findActualFilePath (fs E) path [] of Inl e \<Rightarrow> Inl e | Inr actualFilePath \<Rightarrow>
      (case readFile (fs E) actualFilePath of Inl e \<Rightarrow> Inl e | Inr actualFileString \<Rightarrow>
       (case transform E actualFileString (\<not> endsWith actualFilePath ''.ts'') actualFilePath of
          Inl e \<Rightarrow> Inl e
        | Inr code \<Rightarrow>
       (case parseModule E (stripShebang code) of Inl e \<Rightarrow> Inl e | Inr ast \<Rightarrow>
        (case dropBuiltins (builtinModules E) (readForDependencies ast) of Inl e \<Rightarrow> Inl e
         | Inr dependencies \<Rightarrow> Inr (actualFilePath, ast, dependencies))))))"

definition internalDependencies :: "(string \<times> Method) list \<Rightarrow> (string \<times> Method) list" where
  "internalDependencies dependencies =
     filter (\<lambda>(dependency, m). startsWith dependency ''.'' \<or> startsWith dependency ''/'')
       dependencies"

text \<open>
  Steps 6 and 7: the frames pushed (in pushing order), the tree cached and the record
  appended.
\<close>

definition visit :: "env \<Rightarrow> frame \<Rightarrow> error + (frame list \<times> program \<times> sourceFile)" where
  "visit E fr =
     (case loadSource E (filePath fr) of
        Inl e \<Rightarrow> Inl e
      | Inr (actualFilePath, ast, dependencies) \<Rightarrow>
          let pushed =
                map (\<lambda>(dependency, m).
                       let nextFilePath = resolve (cwd E) [actualFilePath, ''..'', dependency]
                       in \<lparr>filePath = nextFilePath,
                           likelyExtension =
                             (if extname nextFilePath \<noteq> [] then extname nextFilePath
                              else likelyExtension fr),
                           entryMethod = Edge m\<rparr>)
                  (internalDependencies dependencies);
              isESM = (\<exists>(dependency, m) \<in> set dependencies. m = Import);
              fmt = (if entryMethod fr = Edge Require \<or> (entryMethod fr = Entry \<and> \<not> isESM)
                     then ''.cjs'' else ''.mjs'')
          in Inr (pushed, ast,
                  \<lparr>rawInputFile = filePath fr, inputFile = actualFilePath,
                   outputFormat = fmt\<rparr>))"

text \<open>The raw paths that the iteration for a raw path pushes.\<close>

definition nextFilePaths :: "env \<Rightarrow> string \<Rightarrow> string list" where
  "nextFilePaths E path =
     (case loadSource E path of
        Inl e \<Rightarrow> []
      | Inr (actualFilePath, ast, dependencies) \<Rightarrow>
          map (\<lambda>(dependency, m). resolve (cwd E) [actualFilePath, ''..'', dependency])
            (internalDependencies dependencies))"

text \<open>
  The loop itself, over any function \<open>V\<close> for the iteration. The stack has its top at the
  head: \<open>pop\<close> takes the head, and the pushed frames end up in reverse on top.
  \<open>astCache\<close> is the \<open>Map\<close> as an association list, latest binding first. The loop need
  not terminate, so its result is an \<open>option\<close>.
\<close>

partial_function (option) traverseFiles ::
  "(frame \<Rightarrow> error + (frame list \<times> program \<times> sourceFile)) \<Rightarrow> frame list \<Rightarrow> string list
     \<Rightarrow> (string \<times> program) list \<Rightarrow> sourceFile list
     \<Rightarrow> (error + ((string \<times> program) list \<times> sourceFile list)) option" where
  "traverseFiles V fileStack explored astCache internalSourceFiles =
     (case fileStack of
        [] \<Rightarrow> Some (Inr (astCache, internalSourceFiles))
      | fr # rest \<Rightarrow>
          if filePath fr \<in> set explored
          then traverseFiles V rest explored astCache internalSourceFiles
          else
            (case V fr of
               Inl e \<Rightarrow> Some (Inl e)
             | Inr (pushed, ast, sf) \<Rightarrow>
                 traverseFiles V (rev pushed @ rest) (explored @ [filePath fr])
                   ((filePath fr, ast) # astCache) (internalSourceFiles @ [sf])))"

declare traverseFiles.simps [code]

section \<open>Rewriting a file\<close>

text \<open>
  The declarations. \<open>defaultImport\<close> is the local name of the first specifier without an
  \<open>imported\<close> property, \<open>namedImports\<close> the pairs (imported name, local name) of the others.
\<close>

fun defaultImport :: "import_spec list \<Rightarrow> string option" where
  "defaultImport [] = None"
| "defaultImport (ImportSpecifier l i # specs) = defaultImport specs"
| "defaultImport (ImportDefaultSpecifier l # specs) = Some l"
| "defaultImport (ImportNamespaceSpecifier l # specs) = Some l"

fun namedImports :: "import_spec list \<Rightarrow> (string \<times> string) list" where
  "namedImports [] = []"
| "namedImports (ImportSpecifier l i # specs) = (i, l) # namedImports specs"
| "namedImports (ImportDefaultSpecifier l # specs) = namedImports specs"
| "namedImports (ImportNamespaceSpecifier l # specs) = namedImports specs"

definition isExternalDependency :: "env \<Rightarrow> string \<Rightarrow> bool" where
  "isExternalDependency E v =
     (\<not> (startsWith v ''.'' \<or> startsWith v ''/'' \<or> isNodeBuiltin (builtinModules E) v))"

text \<open>The declaration \<open>const { a, b: c } = uniqueID\<close> as the rewriter builds it.\<close>

definition interopShim :: "string \<Rightarrow> (string \<times> string) list \<Rightarrow> module_item" where
  "interopShim uniqueID named =
     Statement
       (VariableDeclaration
          [VariableDeclarator
             (ObjectPattern
                (map (\<lambda>(key, v). Property (Identifier key) False (Identifier v) ''init'' False True)
                   named))
             (Some (Identifier uniqueID))]
          ''const'')"

definition sourceLiteral :: "lit \<times> string \<Rightarrow> lit \<times> string" where
  "sourceLiteral src =
     (case fst src of
        LString s \<Rightarrow> if s \<noteq> [] then (LString (ensureMJS s), quoted (ensureMJS s)) else src
      | LNonString b \<Rightarrow> src)"

text \<open>
  The rewrite of one element of \<open>Program.body\<close>: the elements that stand in its place
  afterwards. \<open>uuid\<close> is what \<open>randomUUID()\<close> returns if it is called for this element.
  The lookups for an external dependency run as promises that \<open>updateImports\<close> awaits
  before it emits; the shim goes in directly behind the declaration
  (\<open>node.parent.splice(index + 1, 0, cjs)\<close>), and a failed lookup fails the build.
\<close>

fun updateItem :: "env \<Rightarrow> string \<Rightarrow> module_item \<Rightarrow> error + module_item list" where
  "updateItem E uuid (ImportDeclaration kind specs v r) =
     (if kind = Some ''type'' then Inr [ImportDeclaration kind specs v r]
      else
        (case v of
           LNonString b \<Rightarrow> Inr [ImportDeclaration kind specs v r]
         | LString s \<Rightarrow>
             if s = [] then Inr [ImportDeclaration kind specs v r]
             else
               let val = ensureMJS s
               in if namedImports specs \<noteq> [] \<and> isExternalDependency E val then
                    (case resolveModule E val of Inl e \<Rightarrow> Inl e
                     | Inr dependencyEntryFilePath \<Rightarrow>
                     (case determineModuleTypeFromPath E dependencyEntryFilePath of
                        Inl e \<Rightarrow> Inl e
                      | Inr dependencyModuleType \<Rightarrow>
                          if dependencyModuleType = ''.cjs'' then
                            (let uniqueID =
                               (case defaultImport specs of
                                  Some n \<Rightarrow> n
                                | None \<Rightarrow> ''xnr_'' @ slice_last uuid 12)
                             in Inr [ImportDeclaration kind [ImportDefaultSpecifier uniqueID]
                                       (LString val) (quoted val),
                                     interopShim uniqueID (namedImports specs)])
                          else Inr [ImportDeclaration kind specs (LString val) (quoted val)]))
                  else Inr [ImportDeclaration kind specs (LString val) (quoted val)]))"
| "updateItem E uuid (ExportNamedDeclaration d specs src) =
     Inr [ExportNamedDeclaration (map_option updateExpr d) specs (map_option sourceLiteral src)]"
| "updateItem E uuid (ExportAllDeclaration v r) =
     Inr [ExportAllDeclaration (fst (sourceLiteral (v, r))) (snd (sourceLiteral (v, r)))]"
| "updateItem E uuid (ExportDefaultDeclaration d) = Inr [ExportDefaultDeclaration (updateExpr d)]"
| "updateItem E uuid (Statement x) = Inr [Statement (updateExpr x)]"

fun updateItems :: "env \<Rightarrow> (nat \<Rightarrow> string) \<Rightarrow> nat \<Rightarrow> module_item list \<Rightarrow> error + module_item list"
  where
  "updateItems E uuids i [] = Inr []"
| "updateItems E uuids i (x # xs) =
     (case updateItem E (uuids i) x of Inl e \<Rightarrow> Inl e | Inr ys \<Rightarrow>
      (case updateItems E uuids (Suc i) xs of Inl e \<Rightarrow> Inl e | Inr zs \<Rightarrow> Inr (ys @ zs)))"

text \<open>\<open>updateImports\<close> up to the call of the emitter: the tree that \<open>generate\<close> receives.\<close>

fun updateImports :: "env \<Rightarrow> (nat \<Rightarrow> string) \<Rightarrow> program \<Rightarrow> error + program" where
  "updateImports E uuids (Program body) =
     (case updateItems E uuids 0 body of Inl e \<Rightarrow> Inl e | Inr body' \<Rightarrow> Inr (Program body'))"

section \<open>The build\<close>

text \<open>
  What is written for one discovered file: the path and the text. The tree comes from
  the cache under the raw path; without an entry there, \<open>generate(undefined)\<close> throws.
\<close>

definition emitFile :: "env \<Rightarrow> string \<Rightarrow> string \<Rightarrow> (string \<times> program) list \<Rightarrow> sourceFile
    \<Rightarrow> error + string \<times> string" where
  "emitFile E outputDirectory commonRootPath astCache sf =
     (case map_of astCache (rawInputFile sf) of
        None \<Rightarrow> Inl TypeError
      | Some ast \<Rightarrow>
          (case updateImports E (randomUUID E (rawInputFile sf)) ast of
             Inl e \<Rightarrow> Inl e
           | Inr ast' \<Rightarrow>
               let newFile = generate E ast';
                   prelude =
                     (if outputFormat sf = ''.mjs'' \<and> \<not> str_includes newFile ''createRequire''
                      then ''import { createRequire } from 'node:module';'' @ [CHR 0x0A]
                           @ ''const require = createRequire(import.meta.url);'' @ [CHR 0x0A]
                      else ''#!/usr/bin/env node'' @ [CHR 0x0A])
               in Inr (outputFilePath outputDirectory commonRootPath (inputFile sf)
                         (outputFormat sf),
                       prelude @ newFile)))"

fun emitFiles :: "env \<Rightarrow> string \<Rightarrow> string \<Rightarrow> (string \<times> program) list \<Rightarrow> sourceFile list
    \<Rightarrow> error + (string \<times> string) list" where
  "emitFiles E outputDirectory commonRootPath astCache [] = Inr []"
| "emitFiles E outputDirectory commonRootPath astCache (sf # sfs) =
     (case emitFile E outputDirectory commonRootPath astCache sf of Inl e \<Rightarrow> Inl e | Inr w \<Rightarrow>
      (case emitFiles E outputDirectory commonRootPath astCache sfs of Inl e \<Rightarrow> Inl e
       | Inr ws \<Rightarrow> Inr (w # ws)))"

definition entryFrame :: "env \<Rightarrow> string \<Rightarrow> frame" where
  "entryFrame E entryFilePath =
     (let firstFilePath = resolve (cwd E) [cwd E, entryFilePath]
      in \<lparr>filePath = firstFilePath, likelyExtension = extname firstFilePath,
          entryMethod = Entry\<rparr>)"

text \<open>
  \<open>build\<close> up to its writes: the files discovered, the common root, and for each
  discovered file the path and the text that the run writes. The result is \<open>None\<close> when a
  loop does not terminate, an error when the traversal or the emission of a record
  throws, and otherwise the list of writes (path, text), one for each discovered file in
  the order of the records. What the writes do to the disk is \<open>buildRun\<close> below.
\<close>

definition discover :: "env \<Rightarrow> string
    \<Rightarrow> (error + ((string \<times> program) list \<times> sourceFile list)) option" where
  "discover E entryFilePath = traverseFiles (visit E) [entryFrame E entryFilePath] [] [] []"

definition build :: "env \<Rightarrow> string \<Rightarrow> string \<Rightarrow> (error + (string \<times> string) list) option" where
  "build E entryFilePath outputDirectory =
     (case discover E entryFilePath of
        None \<Rightarrow> None
      | Some (Inl e) \<Rightarrow> Some (Inl e)
      | Some (Inr (astCache, internalSourceFiles)) \<Rightarrow>
          (case commonRoot (map inputFile internalSourceFiles)
                  (filePath (entryFrame E entryFilePath)) of
             None \<Rightarrow> None
           | Some commonRootPath \<Rightarrow>
               Some (emitFiles E outputDirectory commonRootPath astCache internalSourceFiles)))"

text \<open>
  \<open>emitFiles\<close> and \<open>build\<close> list the writes in the order of the records, which is the
  order in which \<open>build\<close> starts them. It starts them all at once
  (\<open>Promise.all\<close> over \<open>map\<close>) after it has removed and recreated the output directory,
  so the order in which they reach the disk is open. \<open>buildRun\<close> is a run of \<open>build\<close> as a
  step on the files on disk (their texts by absolute path; directories are implicit).

  A relative path is taken from the working directory. \<open>rmRecursive\<close> is
  \<open>fs.promises.rm(dir, {recursive: true, force: true})\<close>. \<open>performed ws d d'\<close>: the
  writes \<open>ws\<close>, each done once and in any order, lead from \<open>d\<close> to \<open>d'\<close>.
\<close>

type_synonym disk = "string \<Rightarrow> string option"

definition absolutePath :: "env \<Rightarrow> string \<Rightarrow> string" where
  "absolutePath E p = resolve (cwd E) [cwd E, p]"

definition isBelow :: "string \<Rightarrow> string \<Rightarrow> bool" where
  "isBelow dir p = (p = dir \<or> startsWith p (if dir = ''/'' then dir else dir @ ''/''))"

definition rmRecursive :: "string \<Rightarrow> disk \<Rightarrow> disk" where
  "rmRecursive dir d = (\<lambda>p. if isBelow dir p then None else d p)"

text \<open>The files at or below a directory.\<close>

definition filesBelow :: "string \<Rightarrow> disk \<Rightarrow> disk" where
  "filesBelow dir d = (\<lambda>p. if isBelow dir p then d p else None)"

definition onDisk :: "env \<Rightarrow> (string \<times> string) list \<Rightarrow> (string \<times> string) list" where
  "onDisk E writes = map (\<lambda>(p, t). (absolutePath E p, t)) writes"

inductive performed :: "(string \<times> string) list \<Rightarrow> disk \<Rightarrow> disk \<Rightarrow> bool" where
  none: "performed [] d d"
| one: "w \<in> set ws \<Longrightarrow> performed (remove1 w ws) (d(fst w \<mapsto> snd w)) d' \<Longrightarrow> performed ws d d'"

text \<open>
  A run ends in one of three ways. The traversal throws: nothing on disk has changed.
  Every record is emitted: the directory is reset and all writes are performed. Some
  record cannot be emitted: \<open>build\<close> rejects with the error of such a record, while the
  other records' writes may or may not have reached the reset directory. A traversal
  that does not return gives no run at all.
\<close>

fun written :: "(error + string \<times> string) list \<Rightarrow> (string \<times> string) list" where
  "written [] = []"
| "written (Inl e # rs) = written rs"
| "written (Inr w # rs) = w # written rs"

inductive buildRun :: "env \<Rightarrow> string \<Rightarrow> string \<Rightarrow> disk \<Rightarrow> (error + unit) \<times> disk \<Rightarrow> bool"
  for E :: env and entryFilePath :: string and outputDirectory :: string where
  notDiscovered:
    "discover E entryFilePath = Some (Inl e)
     \<Longrightarrow> buildRun E entryFilePath outputDirectory d (Inl e, d)"
| allWritten:
    "discover E entryFilePath = Some (Inr (astCache, files))
     \<Longrightarrow> commonRoot (map inputFile files) (filePath (entryFrame E entryFilePath))
           = Some commonRootPath
     \<Longrightarrow> map (emitFile E outputDirectory commonRootPath astCache) files = map Inr writes
     \<Longrightarrow> performed (onDisk E writes) (rmRecursive (absolutePath E outputDirectory) d) d'
     \<Longrightarrow> buildRun E entryFilePath outputDirectory d (Inr (), d')"
| notEmitted:
    "discover E entryFilePath = Some (Inr (astCache, files))
     \<Longrightarrow> commonRoot (map inputFile files) (filePath (entryFrame E entryFilePath))
           = Some commonRootPath
     \<Longrightarrow> Inl e \<in> set (map (emitFile E outputDirectory commonRootPath astCache) files)
     \<Longrightarrow> ws \<in> set (subseqs
           (written (map (emitFile E outputDirectory commonRootPath astCache) files)))
     \<Longrightarrow> performed (onDisk E ws) (rmRecursive (absolutePath E outputDirectory) d) d'
     \<Longrightarrow> buildRun E entryFilePath outputDirectory d (Inl e, d')"

text \<open>No two of the writes put different texts at one path.\<close>

definition consistent :: "(string \<times> string) list \<Rightarrow> bool" where
  "consistent ws = (\<forall>w \<in> set ws. \<forall>w' \<in> set ws. fst w = fst w' \<longrightarrow> snd w = snd w')"

text \<open>
  The raw paths reachable from the entry file: the entry's own path, and every path
  pushed by the iteration for a reachable path.
\<close>

inductive_set rawPaths :: "env \<Rightarrow> string \<Rightarrow> string set" for E :: env and entryFilePath :: string
  where
  entry: "filePath (entryFrame E entryFilePath) \<in> rawPaths E entryFilePath"
| edge: "path \<in> rawPaths E entryFilePath \<Longrightarrow> target \<in> set (nextFilePaths E path)
         \<Longrightarrow> target \<in> rawPaths E entryFilePath"

text \<open>
  The body elements for which the rewriter calls \<open>randomUUID\<close>: a static import of named
  bindings, without a default binding, from an external dependency that classifies as
  \<open>.cjs\<close>.
\<close>

fun generatesIdentifier :: "env \<Rightarrow> module_item \<Rightarrow> bool" where
  "generatesIdentifier E (ImportDeclaration kind specs (LString v) r) =
     (kind \<noteq> Some ''type'' \<and> v \<noteq> [] \<and> namedImports specs \<noteq> []
      \<and> isExternalDependency E (ensureMJS v)
      \<and> (case resolveModule E (ensureMJS v) of
            Inl e \<Rightarrow> False
          | Inr dependencyEntryFilePath \<Rightarrow>
              determineModuleTypeFromPath E dependencyEntryFilePath = Inr ''.cjs'')
      \<and> defaultImport specs = None)"
| "generatesIdentifier E _ = False"

fun body :: "program \<Rightarrow> module_item list" where
  "body (Program items) = items"

section \<open>An emitter\<close>

text \<open>
  The code emitter is a collaborator; the example projects below use this one. On the
  nodes that occur in them it writes what \<open>astring\<close>, the emitter that the program
  imports, writes: an import declaration with its default or namespace bindings first
  and the named ones in braces, a literal by its \<open>raw\<close> text, a property marked
  \<open>shorthand\<close> by its value alone, one statement to a line. Any other node is written as
  its children, separated by blanks.
\<close>

fun commaSeparated :: "string list \<Rightarrow> string" where
  "commaSeparated [] = []"
| "commaSeparated [s] = s"
| "commaSeparated (s # t # ss) = s @ '', '' @ commaSeparated (t # ss)"

fun printExpr :: "expr \<Rightarrow> string"
  and printExprs :: "expr list \<Rightarrow> string list" where
  "printExpr (Identifier n) = n"
| "printExpr (Literal v r) = r"
| "printExpr (TemplateLiteral q qs es) =
     [CHR 0x60] @ concat (map raw (q # qs)) @ [CHR 0x60] @ concat (printExprs es)"
| "printExpr (TaggedTemplateExpression tag q qs es) =
     printExpr tag @ [CHR 0x60] @ concat (map raw (q # qs)) @ [CHR 0x60] @ concat (printExprs es)"
| "printExpr (MemberExpression obj prop) = printExpr obj @ ''.'' @ printExpr prop"
| "printExpr (CallExpression callee args) =
     printExpr callee @ ''('' @ commaSeparated (printExprs args) @ '')''"
| "printExpr (ImportExpression src) = ''import('' @ printExpr src @ '')''"
| "printExpr (TSExternalModuleReference x) = printExpr x"
| "printExpr (VariableDeclaration ds kind) = kind @ '' '' @ commaSeparated (printExprs ds)"
| "printExpr (VariableDeclarator i None) = printExpr i"
| "printExpr (VariableDeclarator i (Some x)) = printExpr i @ '' = '' @ printExpr x"
| "printExpr (ObjectPattern ps) = ''{'' @ commaSeparated (printExprs ps) @ ''}''"
| "printExpr (Property k c v kd m sh) =
     (if sh then printExpr v else printExpr k @ '': '' @ printExpr v)"
| "printExpr (Node t cs) =
     (if t = ''ExpressionStatement'' then concat (printExprs cs) @ '';''
      else join_with '' '' (printExprs cs))"
| "printExprs [] = []"
| "printExprs (x # xs) = printExpr x # printExprs xs"

fun printSpecifiers :: "import_spec list \<Rightarrow> string list" where
  "printSpecifiers [] = []"
| "printSpecifiers (ImportDefaultSpecifier l # specs) = l # printSpecifiers specs"
| "printSpecifiers (ImportNamespaceSpecifier l # specs) = (''* as '' @ l) # printSpecifiers specs"
| "printSpecifiers (ImportSpecifier l i # specs) =
     [''{'' @ commaSeparated (map (\<lambda>(imported, loc). if imported = loc then imported
                                                    else imported @ '' as '' @ loc)
                                (namedImports (ImportSpecifier l i # specs))) @ ''}'']"

fun printItem :: "module_item \<Rightarrow> string" where
  "printItem (ImportDeclaration kind specs v r) =
     ''import '' @ (if specs = [] then [] else commaSeparated (printSpecifiers specs) @ '' from '')
       @ r @ '';''"
| "printItem (ExportNamedDeclaration d specs src) =
     ''export '' @ (case d of Some x \<Rightarrow> printExpr x | None \<Rightarrow>
        ''{'' @ commaSeparated (map (\<lambda>(loc, exported). if loc = exported then loc
                                                     else loc @ '' as '' @ exported) specs) @ ''}''
        @ (case src of None \<Rightarrow> [] | Some l \<Rightarrow> '' from '' @ snd l) @ '';'')"
| "printItem (ExportAllDeclaration v r) = ''export * from '' @ r @ '';''"
| "printItem (ExportDefaultDeclaration d) = ''export default '' @ printExpr d @ '';''"
| "printItem (Statement (VariableDeclaration ds kind)) =
     printExpr (VariableDeclaration ds kind) @ '';''"
| "printItem (Statement x) = printExpr x"

fun printProgram :: "program \<Rightarrow> string" where
  "printProgram (Program items) = concat (map (\<lambda>item. printItem item @ [CHR 0x0A]) items)"

text \<open>A text given by its lines.\<close>

definition textOf :: "string list \<Rightarrow> string" where
  "textOf ls = concat (map (\<lambda>l. l @ [CHR 0x0A]) ls)"

section \<open>Example projects\<close>

text \<open>
  Small projects under \<open>/p\<close>, the working directory. The source transformer is the
  identity on them, the parser is given by its table (each source text with its tree),
  and the emitter is \<open>printProgram\<close>.
\<close>

definition project :: "(string \<times> fsnode) list \<Rightarrow> (string \<times> program) list \<Rightarrow> env" where
  "project files parsed =
     \<lparr>cwd = ''/p'', fs = Dir [(''p'', Dir files)],
      builtinModules = [''fs'', ''path'', ''module''],
      transform = (\<lambda>text jsx file. Inr text),
      parseModule =
        (\<lambda>text. case map_of parsed text of None \<Rightarrow> Inl ParseError | Some ast \<Rightarrow> Inr ast),
      generate = printProgram,
      resolveModule = (\<lambda>v. Inl (ModuleNotFound v)),
      randomUUID = (\<lambda>raw i. ''123e4567-e89b-42d3-a456-426614174000'')\<rparr>"

definition importOf :: "string \<Rightarrow> module_item" where
  "importOf v = ImportDeclaration None [] (LString v) (quoted v)"

definition logStatement :: module_item where
  "logStatement =
     Statement (Node ''ExpressionStatement''
       [CallExpression (MemberExpression (Identifier ''console'') (Identifier ''log''))
          [Literal (LNonString True) ''1'']])"

text \<open>\<open>main.ts\<close> imports \<open>./missing\<close>, which nothing in the directory matches.\<close>

definition missing_env :: env where
  "missing_env =
     project [(''main.ts'', File ''import ./missing'')]
       [(''import ./missing'', Program [importOf ''./missing''])]"

text \<open>\<open>main.js\<close> imports \<open>./a\<close>, next to \<open>a.ts\<close> and \<open>a.js\<close>.\<close>

definition hint_env :: env where
  "hint_env =
     project [(''main.js'', File ''import ./a''), (''a.ts'', File ''log''), (''a.js'', File ''log'')]
       [(''import ./a'', Program [importOf ''./a'']), (''log'', Program [logStatement])]"

text \<open>\<open>main.ts\<close> imports the same file \<open>a.ts\<close> as \<open>./a\<close> and as \<open>./a.ts\<close>.\<close>

definition twice_env :: env where
  "twice_env =
     project [(''main.ts'', File ''import ./a; import ./a.ts''), (''a.ts'', File ''log'')]
       [(''import ./a; import ./a.ts'', Program [importOf ''./a'', importOf ''./a.ts'']),
        (''log'', Program [logStatement])]"

text \<open>\<open>main.ts\<close> imports \<open>./a.ts\<close>.\<close>

definition ext_env :: env where
  "ext_env =
     project [(''main.ts'', File ''import ./a.ts''), (''a.ts'', File ''log'')]
       [(''import ./a.ts'', Program [importOf ''./a.ts'']), (''log'', Program [logStatement])]"

text \<open>\<open>main.ts\<close> imports \<open>./a.ts\<close> and \<open>./a.js\<close>, two files with different texts.\<close>

definition clash_env :: env where
  "clash_env =
     project [(''main.ts'', File ''import ./a.ts; import ./a.js''), (''a.ts'', File ''log''),
              (''a.js'', File ''log; log'')]
       [(''import ./a.ts; import ./a.js'', Program [importOf ''./a.ts'', importOf ''./a.js'']),
        (''log'', Program [logStatement]), (''log; log'', Program [logStatement, logStatement])]"

text \<open>A single file without dependencies.\<close>

definition single_env :: env where
  "single_env = project [(''main.ts'', File ''log'')] [(''log'', Program [logStatement])]"

text \<open>\<open>a.ts\<close> and \<open>b.ts\<close> import each other.\<close>

definition cycle_env :: env where
  "cycle_env =
     project [(''a.ts'', File ''import ./b''), (''b.ts'', File ''import ./a'')]
       [(''import ./a'', Program [importOf ''./a'']), (''import ./b'', Program [importOf ''./b''])]"

text \<open>
  \<open>main.ts\<close> imports the names \<open>x\<close> and \<open>y\<close> (as \<open>z\<close>) from the package \<open>pkg\<close>, whose entry
  file \<open>index.js\<close> has no import or export; \<open>named.ts\<close> imports the default binding
  as well. The package also ships \<open>index.mts\<close> with the
  same text and \<open>index.cts\<close> with an export.
\<close>

definition namedImport :: module_item where
  "namedImport =
     ImportDeclaration None [ImportSpecifier ''x'' ''x'', ImportSpecifier ''z'' ''y'']
       (LString ''pkg'') (quoted ''pkg'')"

definition interop_env :: env where
  "interop_env =
     (project
        [(''main.ts'', File ''import {x, y as z} from pkg''),
         (''named.ts'', File ''import pkg, {x} from pkg''),
         (''node_modules'', Dir [(''pkg'', Dir
            [(''index.js'', File ''log''), (''index.mts'', File ''log''),
             (''index.cts'', File ''export default 1'')])])]
        [(''import {x, y as z} from pkg'', Program [namedImport]),
         (''import pkg, {x} from pkg'',
          Program [ImportDeclaration None [ImportDefaultSpecifier ''pkg'', ImportSpecifier ''x'' ''x'']
                     (LString ''pkg'') (quoted ''pkg'')]),
         (''log'', Program [logStatement]),
         (''export default 1'', Program [ExportDefaultDeclaration (Literal (LNonString True) ''1'')])])
     \<lparr>resolveModule :=
        (\<lambda>v. if v = ''pkg'' then Inr ''/p/node_modules/pkg/index.js'' else Inl (ModuleNotFound v))\<rparr>"

section \<open>Properties of the traversal\<close>

text \<open>The loop, unfolded once on an empty and on a non-empty stack.\<close>

lemma traverseFiles_Nil:
  "traverseFiles V [] explored astCache files = Some (Inr (astCache, files))"
  by (subst traverseFiles.simps) simp

lemma traverseFiles_Cons:
  "traverseFiles V (fr # rest) explored astCache files =
     (if filePath fr \<in> set explored then traverseFiles V rest explored astCache files
      else (case V fr of
              Inl e \<Rightarrow> Some (Inl e)
            | Inr (pushed, ast, sf) \<Rightarrow>
                traverseFiles V (rev pushed @ rest) (explored @ [filePath fr])
                  ((filePath fr, ast) # astCache) (files @ [sf])))"
  by (subst traverseFiles.simps) simp

lemma traverseFiles_returns:
  assumes fin: "finite R"
    and closed: "\<And>fr pushed ast sf. filePath fr \<in> R \<Longrightarrow> V fr = Inr (pushed, ast, sf)
                   \<Longrightarrow> filePath ` set pushed \<subseteq> R"
  shows "filePath ` set fileStack \<subseteq> R
         \<Longrightarrow> \<exists>r. traverseFiles V fileStack explored astCache files = Some r"
proof (induction "card (R - set explored)" arbitrary: fileStack explored astCache files
       rule: less_induct)
  case less
  from less.prems show ?case
  proof (induction fileStack)
    case Nil
    show ?case by (simp add: traverseFiles_Nil)
  next
    case (Cons fr rest)
    have inR: "filePath fr \<in> R" and restR: "filePath ` set rest \<subseteq> R"
      using Cons.prems by auto
    show ?case
    proof (cases "filePath fr \<in> set explored")
      case True
      then show ?thesis using Cons.IH [OF restR] by (simp add: traverseFiles_Cons)
    next
      case False
      show ?thesis
      proof (cases "V fr")
        case (Inl e)
        then show ?thesis using False by (simp add: traverseFiles_Cons)
      next
        case (Inr res)
        obtain pushed ast sf where res: "res = (pushed, ast, sf)" by (cases res) auto
        have sub: "filePath ` set (rev pushed @ rest) \<subseteq> R"
          using closed [OF inR, of pushed ast sf] Inr res restR by auto
        have "R - set (explored @ [filePath fr]) \<subset> R - set explored"
          using inR False by auto
        then have "card (R - set (explored @ [filePath fr])) < card (R - set explored)"
          using fin by (intro psubset_card_mono) auto
        from less.hyps [OF this sub] show ?thesis
          using False Inr res by (simp add: traverseFiles_Cons)
      qed
    qed
  qed
qed

lemma traverseFiles_raw_distinct_aux:
  assumes "traverseFiles V fileStack explored astCache files = Some y"
  shows "(\<forall>fr pushed ast sf. V fr = Inr (pushed, ast, sf) \<longrightarrow> rawInputFile sf = filePath fr) \<longrightarrow>
     (\<forall>astCache' files'. y = Inr (astCache', files') \<longrightarrow> distinct (map rawInputFile files)
        \<longrightarrow> set (map rawInputFile files) \<subseteq> set explored
        \<longrightarrow> distinct (map rawInputFile files'))"
  using assms
proof (induction rule: traverseFiles.raw_induct [rotated 1, consumes 1])
  case (1 rec V fileStack explored astCache files y)
  show ?case
  proof (intro impI allI)
    fix astCache' files'
    assume raw: "\<forall>fr pushed ast sf. V fr = Inr (pushed, ast, sf) \<longrightarrow> rawInputFile sf = filePath fr"
      and y: "y = Inr (astCache', files')"
      and dist: "distinct (map rawInputFile files)"
      and sub: "set (map rawInputFile files) \<subseteq> set explored"
    show "distinct (map rawInputFile files')"
    proof (cases fileStack)
      case Nil
      then show ?thesis using "1.hyps" y dist by simp
    next
      case (Cons fr rest)
      show ?thesis
      proof (cases "filePath fr \<in> set explored")
        case True
        then have "rec V rest explored astCache files = Some y"
          using "1.hyps" Cons by simp
        from "1.IH" [OF this] raw y dist sub show ?thesis by blast
      next
        case False
        show ?thesis
        proof (cases "V fr")
          case (Inl e)
          then show ?thesis using "1.hyps" Cons False y by simp
        next
          case (Inr res)
          obtain pushed ast sf where res: "res = (pushed, ast, sf)" by (cases res) auto
          have step: "rec V (rev pushed @ rest) (explored @ [filePath fr])
                        ((filePath fr, ast) # astCache) (files @ [sf]) = Some y"
            using "1.hyps" Cons False Inr res by simp
          have sf: "rawInputFile sf = filePath fr" using raw Inr res by blast
          have d: "distinct (map rawInputFile (files @ [sf]))"
            using dist sub sf False by auto
          have s: "set (map rawInputFile (files @ [sf])) \<subseteq> set (explored @ [filePath fr])"
            using sub sf by auto
          from "1.IH" [OF step] raw y d s show ?thesis by blast
        qed
      qed
    qed
  qed
qed

lemma visit_rawInputFile:
  "visit E fr = Inr (pushed, ast, sf) \<Longrightarrow> rawInputFile sf = filePath fr"
  by (auto simp: visit_def Let_def split: sum.splits prod.splits)

lemma visit_pushed:
  "visit E fr = Inr (pushed, ast, sf) \<Longrightarrow> map filePath pushed = nextFilePaths E (filePath fr)"
  by (auto simp: visit_def nextFilePaths_def Let_def split: sum.splits prod.splits)

lemma discover_distinct:
  assumes "discover E entryFilePath = Some (Inr (astCache, files))"
  shows "distinct (map rawInputFile files)"
  using traverseFiles_raw_distinct_aux [OF assms [unfolded discover_def]]
  by (auto dest: visit_rawInputFile)

lemma discover_returns:
  assumes "finite (rawPaths E entryFilePath)"
  shows "\<exists>r. discover E entryFilePath = Some r"
  unfolding discover_def
proof (rule traverseFiles_returns [OF assms])
  fix fr pushed ast sf
  assume inR: "filePath fr \<in> rawPaths E entryFilePath" and v: "visit E fr = Inr (pushed, ast, sf)"
  have "filePath ` set pushed = set (nextFilePaths E (filePath fr))"
    using visit_pushed [OF v] by (metis set_map)
  then show "filePath ` set pushed \<subseteq> rawPaths E entryFilePath"
    using inR by (auto intro: rawPaths.edge)
next
  show "filePath ` set [entryFrame E entryFilePath] \<subseteq> rawPaths E entryFilePath"
    by (simp add: rawPaths.entry)
qed

text \<open>
  The raw paths recorded are exactly the reachable ones: the records stay within any set
  that is closed under the pushes, and at the end they are closed themselves.
\<close>

lemma traverseFiles_covers_aux:
  assumes "traverseFiles V fileStack explored astCache files = Some y"
  shows "(\<forall>fr pushed ast sf. V fr = Inr (pushed, ast, sf)
            \<longrightarrow> rawInputFile sf = filePath fr \<and> filePath ` set pushed = N (filePath fr)) \<longrightarrow>
     (\<forall>astCache' files'. y = Inr (astCache', files')
        \<longrightarrow> set (map rawInputFile files) = set explored
        \<longrightarrow> (\<forall>q \<in> set explored. N q \<subseteq> set explored \<union> filePath ` set fileStack)
        \<longrightarrow> set explored \<union> filePath ` set fileStack \<subseteq> set (map rawInputFile files')
            \<and> (\<forall>q \<in> set (map rawInputFile files'). N q \<subseteq> set (map rawInputFile files')))"
  using assms
proof (induction rule: traverseFiles.raw_induct [rotated 1, consumes 1])
  case (1 rec V fileStack explored astCache files y)
  show ?case
  proof (intro impI allI)
    fix astCache' files'
    assume V: "\<forall>fr pushed ast sf. V fr = Inr (pushed, ast, sf)
            \<longrightarrow> rawInputFile sf = filePath fr \<and> filePath ` set pushed = N (filePath fr)"
      and y: "y = Inr (astCache', files')"
      and eq: "set (map rawInputFile files) = set explored"
      and cl: "\<forall>q \<in> set explored. N q \<subseteq> set explored \<union> filePath ` set fileStack"
    show "set explored \<union> filePath ` set fileStack \<subseteq> set (map rawInputFile files')
            \<and> (\<forall>q \<in> set (map rawInputFile files'). N q \<subseteq> set (map rawInputFile files'))"
    proof (cases fileStack)
      case Nil
      then have "files' = files" using "1.hyps" y by simp
      then show ?thesis using eq cl Nil by auto
    next
      case (Cons fr rest)
      show ?thesis
      proof (cases "filePath fr \<in> set explored")
        case True
        then have step: "rec V rest explored astCache files = Some y"
          using "1.hyps" Cons by simp
        have cl': "\<forall>q \<in> set explored. N q \<subseteq> set explored \<union> filePath ` set rest"
          using cl Cons True by auto
        from "1.IH" [OF step] V y eq cl'
        have "set explored \<union> filePath ` set rest \<subseteq> set (map rawInputFile files')
            \<and> (\<forall>q \<in> set (map rawInputFile files'). N q \<subseteq> set (map rawInputFile files'))"
          by blast
        then show ?thesis using Cons True by auto
      next
        case False
        show ?thesis
        proof (cases "V fr")
          case (Inl e)
          then show ?thesis using "1.hyps" Cons False y by simp
        next
          case (Inr res)
          obtain pushed ast sf where res: "res = (pushed, ast, sf)" by (cases res) auto
          have step: "rec V (rev pushed @ rest) (explored @ [filePath fr])
                        ((filePath fr, ast) # astCache) (files @ [sf]) = Some y"
            using "1.hyps" Cons False Inr res by simp
          have sf: "rawInputFile sf = filePath fr" and pu: "filePath ` set pushed = N (filePath fr)"
            using V Inr res by blast+
          have eq': "set (map rawInputFile (files @ [sf])) = set (explored @ [filePath fr])"
            using eq sf by auto
          have cl': "\<forall>q \<in> set (explored @ [filePath fr]).
                       N q \<subseteq> set (explored @ [filePath fr]) \<union> filePath ` set (rev pushed @ rest)"
            using cl pu Cons by auto
          from "1.IH" [OF step] V y eq' cl'
          have "set (explored @ [filePath fr]) \<union> filePath ` set (rev pushed @ rest)
                  \<subseteq> set (map rawInputFile files')
            \<and> (\<forall>q \<in> set (map rawInputFile files'). N q \<subseteq> set (map rawInputFile files'))"
            by blast
          then show ?thesis using Cons by auto
        qed
      qed
    qed
  qed
qed

lemma traverseFiles_within_aux:
  assumes "traverseFiles V fileStack explored astCache files = Some y"
  shows "(\<forall>fr pushed ast sf. V fr = Inr (pushed, ast, sf)
            \<longrightarrow> rawInputFile sf = filePath fr \<and> (filePath fr \<in> S \<longrightarrow> filePath ` set pushed \<subseteq> S)) \<longrightarrow>
     (\<forall>astCache' files'. y = Inr (astCache', files')
        \<longrightarrow> set (map rawInputFile files) \<subseteq> S
        \<longrightarrow> filePath ` set fileStack \<subseteq> S
        \<longrightarrow> set (map rawInputFile files') \<subseteq> S)"
  using assms
proof (induction rule: traverseFiles.raw_induct [rotated 1, consumes 1])
  case (1 rec V fileStack explored astCache files y)
  show ?case
  proof (intro impI allI)
    fix astCache' files'
    assume V: "\<forall>fr pushed ast sf. V fr = Inr (pushed, ast, sf)
            \<longrightarrow> rawInputFile sf = filePath fr \<and> (filePath fr \<in> S \<longrightarrow> filePath ` set pushed \<subseteq> S)"
      and y: "y = Inr (astCache', files')"
      and f: "set (map rawInputFile files) \<subseteq> S"
      and st: "filePath ` set fileStack \<subseteq> S"
    show "set (map rawInputFile files') \<subseteq> S"
    proof (cases fileStack)
      case Nil
      then have "files' = files" using "1.hyps" y by simp
      then show ?thesis using f by simp
    next
      case (Cons fr rest)
      have inS: "filePath fr \<in> S" and restS: "filePath ` set rest \<subseteq> S"
        using st Cons by auto
      show ?thesis
      proof (cases "filePath fr \<in> set explored")
        case True
        then have step: "rec V rest explored astCache files = Some y"
          using "1.hyps" Cons by simp
        from "1.IH" [OF step] V y f restS show ?thesis by blast
      next
        case False
        show ?thesis
        proof (cases "V fr")
          case (Inl e)
          then show ?thesis using "1.hyps" Cons False y by simp
        next
          case (Inr res)
          obtain pushed ast sf where res: "res = (pushed, ast, sf)" by (cases res) auto
          have step: "rec V (rev pushed @ rest) (explored @ [filePath fr])
                        ((filePath fr, ast) # astCache) (files @ [sf]) = Some y"
            using "1.hyps" Cons False Inr res by simp
          have sf: "rawInputFile sf = filePath fr" and pu: "filePath ` set pushed \<subseteq> S"
            using V Inr res inS by blast+
          have f': "set (map rawInputFile (files @ [sf])) \<subseteq> S"
            using f sf inS by auto
          have st': "filePath ` set (rev pushed @ rest) \<subseteq> S"
            using pu restS by auto
          from "1.IH" [OF step] V y f' st' show ?thesis by blast
        qed
      qed
    qed
  qed
qed

lemma visit_pushed_set:
  "visit E fr = Inr (pushed, ast, sf) \<Longrightarrow> filePath ` set pushed = set (nextFilePaths E (filePath fr))"
  using visit_pushed [of E fr pushed ast sf] by (metis set_map)

lemma discover_covers:
  assumes d: "discover E entryFilePath = Some (Inr (astCache, files))"
  shows "set (map rawInputFile files) = rawPaths E entryFilePath"
proof
  have V: "\<forall>fr pushed ast sf. visit E fr = Inr (pushed, ast, sf)
            \<longrightarrow> rawInputFile sf = filePath fr
              \<and> (filePath fr \<in> rawPaths E entryFilePath
                   \<longrightarrow> filePath ` set pushed \<subseteq> rawPaths E entryFilePath)"
    by (auto simp: visit_rawInputFile visit_pushed_set intro: rawPaths.edge)
  from traverseFiles_within_aux [OF d [unfolded discover_def], of "rawPaths E entryFilePath"] V
  show "set (map rawInputFile files) \<subseteq> rawPaths E entryFilePath"
    by (simp add: rawPaths.entry)
next
  have V: "\<forall>fr pushed ast sf. visit E fr = Inr (pushed, ast, sf)
            \<longrightarrow> rawInputFile sf = filePath fr
              \<and> filePath ` set pushed = set (nextFilePaths E (filePath fr))"
    by (auto simp: visit_rawInputFile visit_pushed_set)
  from traverseFiles_covers_aux [OF d [unfolded discover_def], of "\<lambda>p. set (nextFilePaths E p)"] V
  have e: "filePath (entryFrame E entryFilePath) \<in> set (map rawInputFile files)"
    and c: "\<forall>q \<in> set (map rawInputFile files). set (nextFilePaths E q) \<subseteq> set (map rawInputFile files)"
    by auto
  show "rawPaths E entryFilePath \<subseteq> set (map rawInputFile files)"
  proof
    fix x assume "x \<in> rawPaths E entryFilePath"
    then show "x \<in> set (map rawInputFile files)"
      by induction (use e c in auto)
  qed
qed

section \<open>Properties of the rewriter, the classifiers and the iteration\<close>

text \<open>
  The two branches of the \<open>require\<close> case, for any specifier: the string literal goes
  through \<open>ensureMJS\<close>, the template literal through \<open>ensureCJS\<close>.
\<close>

lemma require_literal_uses_ensureMJS:
  "updateExpr (CallExpression (Identifier ''require'') (Literal (LString s) r # rest))
     = CallExpression (Identifier ''require'') (asLiteral (ensureMJS s) # updateExprs rest)"
  by (simp add: isRequire_def)

lemma require_template_uses_ensureCJS:
  "updateExpr (CallExpression (Identifier ''require'')
       [TemplateLiteral (TemplateElement rw (Some s) isTail) qs []])
     = CallExpression (Identifier ''require'') [TemplateLiteral (newQuasi (ensureCJS s)) [] []]"
  by (simp add: isRequire_def)

text \<open>
  \<open>determineModuleType\<close> decides the four extensions without reading the file and
  everything else by content, where a dynamic \<open>import()\<close> is no evidence.
  \<open>determineModuleTypeFromPath\<close> reads the file for every ending but \<open>.cjs\<close> and \<open>.mjs\<close>.
\<close>

lemma determineModuleType_static:
  "toLowerCase (slice_last path 4) = ''.mjs'' \<or> toLowerCase (slice_last path 4) = ''.mts''
   \<Longrightarrow> determineModuleType E path = Inr Import"
  by (auto simp: determineModuleType_def Let_def)

lemma determineModuleType_dynamic:
  "toLowerCase (slice_last path 4) = ''.cjs'' \<or> toLowerCase (slice_last path 4) = ''.cts''
   \<Longrightarrow> determineModuleType E path = Inr Require"
  by (auto simp: determineModuleType_def Let_def)

lemma determineModuleType_content:
  assumes "toLowerCase (slice_last path 4) \<notin> {''.mjs'', ''.mts'', ''.cjs'', ''.cts''}"
    and "readFile (fs E) path = Inr content" and "parseModule E content = Inr ast"
  shows "determineModuleType E path
           = Inr (if \<exists>t \<in> set (programTypes ast). t \<in> set MODULE_ONLY_NODE_TYPE_SET
                  then Import else Require)"
  using assms by (simp add: determineModuleType_def Let_def)

lemma determineModuleTypeFromPath_other:
  assumes "slice_last (toLowerCase path) 4 \<noteq> ''.cjs''" and "slice_last (toLowerCase path) 4 \<noteq> ''.mjs''"
  shows "determineModuleTypeFromPath E path
           = (case readFile (fs E) path of
                Inl e \<Rightarrow> Inl e
              | Inr content \<Rightarrow> determineModuleTypeFromString E content)"
  using assms by (simp add: determineModuleTypeFromPath_def Let_def)

lemma importExpression_not_module_only:
  "''ImportExpression'' \<notin> set MODULE_ONLY_NODE_TYPE_SET"
  by (simp add: MODULE_ONLY_NODE_TYPE_SET_def)

text \<open>The file that an iteration resolves does not depend on the frame's hint.\<close>

lemma visit_ignores_hint:
  "map_sum id (\<lambda>(pushed, ast, sf). inputFile sf) (visit E (fr\<lparr>likelyExtension := hint\<rparr>))
     = map_sum id (\<lambda>(pushed, ast, sf). inputFile sf) (visit E fr)"
  by (auto simp: visit_def Let_def split: sum.splits prod.splits)

section \<open>Require targets\<close>

text \<open>
  C2. A \<open>require\<close> call whose first argument names an internal specifier should get the
  dynamic output extension \<open>.cjs\<close>. The template-literal branch of the rewriter does so
  (\<open>ensureCJS\<close>), but the string-literal branch calls \<open>ensureMJS\<close>: \<open>require('./x')\<close> is
  rewritten to \<open>require('./x.mjs')\<close>, whereas the same specifier written as a template
  literal becomes \<open>./x.cjs\<close>.
\<close>

theorem require_literal_rewritten_to_mjs:
  "updateExpr (CallExpression (Identifier ''require'') [Literal (LString ''./x'') (quoted ''./x'')])
     = CallExpression (Identifier ''require'') [Literal (LString ''./x.mjs'') (quoted ''./x.mjs'')]
   \<and> updateExpr (CallExpression (Identifier ''require'')
          [TemplateLiteral (TemplateElement ''./x'' (Some ''./x'') True) [] []])
     = CallExpression (Identifier ''require'')
          [TemplateLiteral (TemplateElement ''./x.cjs'' (Some ''./x.cjs'') True) [] []]"
  by (simp add: isRequire_def ensureMJS_def ensureCJS_def asLiteral_def newQuasi_def
      startsWith_def extname_def last_component_def)

section \<open>Unresolvable specifiers\<close>

text \<open>
  C3. A specifier that matches no file should fail the build with an error that names
  the mechanism and the unresolved path. For \<open>import './missing'\<close> in \<open>/p/main.ts\<close> the
  build does fail, but in evaluating the message of that error: \<open>entryMethod\<close> is not
  defined in \<open>findActualFilePath\<close>, so what is thrown is a \<open>ReferenceError\<close> about
  \<open>entryMethod\<close>, carrying neither the mechanism nor the path.
\<close>

theorem unresolved_specifier_throws_reference_error:
  "findActualFilePath (fs missing_env) ''/p/missing'' [] = Inl (ReferenceError ''entryMethod'')
   \<and> build missing_env ''main.ts'' ''/p/.jbuild'' = Some (Inl (ReferenceError ''entryMethod''))"
  by code_simp

section \<open>The output plan\<close>

text \<open>
  C6. A discovered file should be written to the output directory joined with its path
  relative to the common root, with the format's extension. The build of the single
  file \<open>/p/main.ts\<close> into \<open>/p/.jbuild\<close> finds the common root \<open>/p\<close>, but it prefixes the
  output directory to the relative path and then joins the result to the output
  directory once more: the file is written to \<open>/p/.jbuild/p/.jbuild/main.cjs\<close>, not to
  \<open>/p/.jbuild/main.cjs\<close>.
\<close>

theorem output_directory_prefixed_twice:
  "commonRoot [''/p/main.ts''] ''/p/main.ts'' = Some ''/p''
   \<and> map_option (map_sum id (map fst)) (build single_env ''main.ts'' ''/p/.jbuild'')
       = Some (Inr [''/p/.jbuild/p/.jbuild/main.cjs''])
   \<and> join [''/p/.jbuild'', ''main.cjs''] = ''/p/.jbuild/main.cjs''"
  by code_simp

section \<open>The likely-extension hint\<close>

text \<open>
  C7. A frame's specifier should be resolved with the frame's likely-extension hint.
  \<open>/p/main.js\<close> imports \<open>./a\<close>; the frame pushed for it carries the hint \<open>.js\<close>, and
  \<open>findActualFilePath\<close> called with that hint picks \<open>a.js\<close>. The loop calls it with the
  path alone, so the hint is empty and the fixed order decides: \<open>a.ts\<close> is taken.
\<close>

theorem hint_not_passed_to_resolution:
  "map_sum id fst (visit hint_env (entryFrame hint_env ''main.js''))
     = Inr [\<lparr>filePath = ''/p/a'', likelyExtension = ''.js'', entryMethod = Edge Import\<rparr>]
   \<and> findActualFilePath (fs hint_env) ''/p/a'' ''.js'' = Inr ''/p/a.js''
   \<and> map_option (map_sum id (\<lambda>found. map inputFile (snd found))) (discover hint_env ''main.js'')
       = Some (Inr [''/p/main.js'', ''/p/a.ts''])"
  by code_simp

section \<open>Classification by extension\<close>

text \<open>
  C9. A file name ending in \<open>.mts\<close> should classify as static and one ending in \<open>.cts\<close>
  as dynamic, without a look at the content. \<open>determineModuleType\<close> does that.
  \<open>determineModuleTypeFromPath\<close>, which the rewriter uses, knows \<open>.mjs\<close> and \<open>.cjs\<close> only
  and decides the other two by content: \<open>index.mts\<close> without import or export comes out
  as \<open>.cjs\<close>, \<open>index.cts\<close> with an export as \<open>.mjs\<close>.
\<close>

theorem mts_cts_classified_by_content:
  "determineModuleTypeFromPath interop_env ''/p/node_modules/pkg/index.mts'' = Inr ''.cjs''
   \<and> determineModuleTypeFromPath interop_env ''/p/node_modules/pkg/index.cts'' = Inr ''.mjs''
   \<and> determineModuleType interop_env ''/p/node_modules/pkg/index.mts'' = Inr Import
   \<and> determineModuleType interop_env ''/p/node_modules/pkg/index.cts'' = Inr Require"
  by code_simp

section \<open>Specifiers and emitted files\<close>

text \<open>
  C1. The specifier written into an emitted file should name the emitted file of its
  target. \<open>/p/main.ts\<close> imports \<open>./a.ts\<close>: the rewriter appends \<open>.mjs\<close> to the specifier,
  giving \<open>./a.ts.mjs\<close>, while the planner replaces the extension of the target and
  writes \<open>a.mjs\<close>. Resolved from the emitted \<open>main.mjs\<close>, the specifier names a file that
  the build does not write.
\<close>

theorem rewritten_specifier_misses_emitted_file:
  "updateImports ext_env (randomUUID ext_env ''/p/main.ts'') (Program [importOf ''./a.ts''])
     = Inr (Program [importOf ''./a.ts.mjs''])
   \<and> map_option (map_sum id (map fst)) (build ext_env ''main.ts'' ''/p/.jbuild'')
       = Some (Inr [''/p/.jbuild/p/.jbuild/main.mjs'', ''/p/.jbuild/p/.jbuild/a.mjs''])
   \<and> resolve ''/p'' [''/p/.jbuild/p/.jbuild/main.mjs'', ''..'', ''./a.ts.mjs'']
       = ''/p/.jbuild/p/.jbuild/a.ts.mjs''"
  by code_simp

section \<open>One record for each raw path\<close>

text \<open>
  C4, as stated: each resolved path appears exactly once among the discovered files and
  in the output, also when a file is reached through two raw specifiers. The loop
  checks \<open>explored\<close> for the raw path, before resolution: \<open>/p/main.ts\<close> importing
  \<open>./a\<close> and \<open>./a.ts\<close> records the resolved path \<open>/p/a.ts\<close> twice, and writes it twice.
\<close>

theorem same_file_recorded_twice:
  "map_option (map_sum id (\<lambda>found. map inputFile (snd found))) (discover twice_env ''main.ts'')
     = Some (Inr [''/p/main.ts'', ''/p/a.ts'', ''/p/a.ts''])
   \<and> map_option (map_sum id (map fst)) (build twice_env ''main.ts'' ''/p/.jbuild'')
     = Some (Inr [''/p/.jbuild/p/.jbuild/main.mjs'', ''/p/.jbuild/p/.jbuild/a.mjs'',
                  ''/p/.jbuild/p/.jbuild/a.mjs''])"
  by code_simp

text \<open>
  C4, amended: when the traversal completes, the raw paths of the records are pairwise
  different and are exactly the raw paths reachable from the entry file.
\<close>

theorem each_raw_path_recorded_once:
  assumes "discover E entryFilePath = Some (Inr (astCache, files))"
  shows "distinct (map rawInputFile files)
         \<and> set (map rawInputFile files) = rawPaths E entryFilePath"
  using discover_distinct [OF assms] discover_covers [OF assms] by simp

theorem each_raw_path_recorded_once_witness:
  "discover twice_env ''main.ts''
     = Some (Inr ([(''/p/a'', Program [logStatement]), (''/p/a.ts'', Program [logStatement]),
                   (''/p/main.ts'', Program [importOf ''./a'', importOf ''./a.ts''])],
                  [\<lparr>rawInputFile = ''/p/main.ts'', inputFile = ''/p/main.ts'', outputFormat = ''.mjs''\<rparr>,
                   \<lparr>rawInputFile = ''/p/a.ts'', inputFile = ''/p/a.ts'', outputFormat = ''.mjs''\<rparr>,
                   \<lparr>rawInputFile = ''/p/a'', inputFile = ''/p/a.ts'', outputFormat = ''.mjs''\<rparr>]))
   \<and> distinct [''/p/main.ts'', ''/p/a.ts'', ''/p/a'']
   \<and> rawPaths twice_env ''main.ts'' = {''/p/main.ts'', ''/p/a.ts'', ''/p/a''}"
proof -
  have d: "discover twice_env ''main.ts''
     = Some (Inr ([(''/p/a'', Program [logStatement]), (''/p/a.ts'', Program [logStatement]),
                   (''/p/main.ts'', Program [importOf ''./a'', importOf ''./a.ts''])],
                  [\<lparr>rawInputFile = ''/p/main.ts'', inputFile = ''/p/main.ts'', outputFormat = ''.mjs''\<rparr>,
                   \<lparr>rawInputFile = ''/p/a.ts'', inputFile = ''/p/a.ts'', outputFormat = ''.mjs''\<rparr>,
                   \<lparr>rawInputFile = ''/p/a'', inputFile = ''/p/a.ts'', outputFormat = ''.mjs''\<rparr>]))"
    by code_simp
  from each_raw_path_recorded_once [OF d] d show ?thesis by auto
qed

section \<open>Termination of the traversal\<close>

text \<open>
  C10. When the set of raw paths reachable from the entry file is finite, the loop of
  \<open>build\<close> returns, with a result or with an error, whether or not the files import
  each other in a cycle.
\<close>

theorem traversal_terminates_on_finite_raw_paths:
  assumes "finite (rawPaths E entryFilePath)"
  shows "\<exists>r. discover E entryFilePath = Some r"
  using discover_returns [OF assms] .

text \<open>\<open>a.ts\<close> and \<open>b.ts\<close> import each other; three raw paths are reachable.\<close>

theorem traversal_terminates_witness:
  "finite (rawPaths cycle_env ''a.ts'') \<and> (\<exists>r. discover cycle_env ''a.ts'' = Some r)"
proof -
  have e: "filePath (entryFrame cycle_env ''a.ts'') = ''/p/a.ts''" by code_simp
  have n1: "nextFilePaths cycle_env ''/p/a.ts'' = [''/p/b'']" by code_simp
  have n2: "nextFilePaths cycle_env ''/p/b'' = [''/p/a'']" by code_simp
  have n3: "nextFilePaths cycle_env ''/p/a'' = [''/p/b'']" by code_simp
  have "rawPaths cycle_env ''a.ts'' \<subseteq> {''/p/a.ts'', ''/p/b'', ''/p/a''}"
  proof
    fix x assume "x \<in> rawPaths cycle_env ''a.ts''"
    then show "x \<in> {''/p/a.ts'', ''/p/b'', ''/p/a''}"
    proof induction
      case entry
      show ?case by (simp add: e)
    next
      case (edge path target)
      then show ?case using n1 n2 n3 by auto
    qed
  qed
  then have fin: "finite (rawPaths cycle_env ''a.ts'')"
    by (rule finite_subset) simp
  from traversal_terminates_on_finite_raw_paths [OF fin] fin show ?thesis by simp
qed

section \<open>The interop shim\<close>

text \<open>
  The rewrite leaves a shim as it is. For an import, not type-only, of named bindings
  from an external dependency that classifies as \<open>.cjs\<close>, it puts a default import of
  \<open>uniqueID\<close> and, directly behind it, a \<open>const\<close> declaration with one property for each named
  binding, every one marked \<open>shorthand\<close>; the default import alone is not rewritten
  again.
\<close>

lemma updateExprs_properties:
  "updateExprs (map (\<lambda>(key, v). Property (Identifier key) False (Identifier v) ''init'' False True) named)
     = map (\<lambda>(key, v). Property (Identifier key) False (Identifier v) ''init'' False True) named"
  by (induction named) (auto split: prod.splits)

lemma updateItem_interopShim:
  "updateItem E uuid (interopShim uniqueID named) = Inr [interopShim uniqueID named]"
  by (simp add: interopShim_def updateExprs_properties)

lemma ensureMJS_external:
  "isExternalDependency E v \<Longrightarrow> ensureMJS v = v"
  by (simp add: isExternalDependency_def ensureMJS_def)

lemma named_import_rewritten:
  assumes "kind \<noteq> Some ''type''" and "v \<noteq> []" and "namedImports specs \<noteq> []"
    and "isExternalDependency E v"
    and "resolveModule E v = Inr dependencyEntryFilePath"
    and "determineModuleTypeFromPath E dependencyEntryFilePath = Inr ''.cjs''"
    and "uniqueID = (case defaultImport specs of
                       Some n \<Rightarrow> n
                     | None \<Rightarrow> ''xnr_'' @ slice_last uuid 12)"
  shows "updateItem E uuid (ImportDeclaration kind specs (LString v) r)
     = Inr [ImportDeclaration kind [ImportDefaultSpecifier uniqueID] (LString v) (quoted v),
            Statement
              (VariableDeclaration
                 [VariableDeclarator
                    (ObjectPattern
                       (map (\<lambda>(imported, loc).
                               Property (Identifier imported) False (Identifier loc) ''init'' False True)
                          (namedImports specs)))
                    (Some (Identifier uniqueID))]
                 ''const'')]"
    and "updateItem E uuid'
           (ImportDeclaration kind [ImportDefaultSpecifier uniqueID] (LString v) (quoted v))
     = Inr [ImportDeclaration kind [ImportDefaultSpecifier uniqueID] (LString v) (quoted v)]"
  using assms by (simp_all add: ensureMJS_external Let_def interopShim_def)

text \<open>
  C8. The declaration behind the rewritten import should extract each named binding from
  the default binding. For \<open>import { x, y as z } from 'pkg'\<close> the property for \<open>z\<close> has
  the key \<open>y\<close> and the value \<open>z\<close>, but it is marked \<open>shorthand\<close> like every property of
  the shim, and a shorthand property is written by its value alone: the emitted file
  declares \<open>const {x, z}\<close>, which reads the property \<open>z\<close> of the module and never \<open>y\<close>.
\<close>

theorem aliased_import_destructured_by_local_name:
  "updateImports interop_env (randomUUID interop_env ''/p/main.ts'')
       (Program
          [ImportDeclaration None [ImportSpecifier ''x'' ''x'', ImportSpecifier ''z'' ''y'']
             (LString ''pkg'') (quoted ''pkg'')])
     = Inr (Program
         [ImportDeclaration None [ImportDefaultSpecifier ''xnr_426614174000'']
            (LString ''pkg'') (quoted ''pkg''),
          Statement
            (VariableDeclaration
               [VariableDeclarator
                  (ObjectPattern
                     [Property (Identifier ''x'') False (Identifier ''x'') ''init'' False True,
                      Property (Identifier ''y'') False (Identifier ''z'') ''init'' False True])
                  (Some (Identifier ''xnr_426614174000''))]
               ''const'')])
   \<and> build interop_env ''main.ts'' ''/p/.jbuild''
     = Some (Inr [(''/p/.jbuild/p/.jbuild/main.mjs'',
                   textOf [''import { createRequire } from 'node:module';'',
                           ''const require = createRequire(import.meta.url);'',
                           ''import xnr_426614174000 from 'pkg';'',
                           ''const {x, z} = xnr_426614174000;''])])"
  by code_simp

section \<open>Repeated builds\<close>

text \<open>
  Nothing but \<open>updateItem\<close> reads the random identifiers; it reads them only for the
  elements that \<open>generatesIdentifier\<close> describes, and of each only the last twelve
  characters.
\<close>

lemma determineModuleTypeFromPath_randomUUID:
  "determineModuleTypeFromPath (E\<lparr>randomUUID := u\<rparr>) path = determineModuleTypeFromPath E path"
  by (simp add: determineModuleTypeFromPath_def determineModuleTypeFromString_def
        cong: if_cong sum.case_cong)

lemma updateItem_randomUUID:
  "updateItem (E\<lparr>randomUUID := u\<rparr>) uuid item = updateItem E uuid item"
  by (cases "(E, uuid, item)" rule: updateItem.cases)
     (simp_all add: isExternalDependency_def determineModuleTypeFromPath_randomUUID
        cong: if_cong sum.case_cong lit.case_cong)

lemma updateItem_uuid:
  assumes "generatesIdentifier E item \<longrightarrow> slice_last uuid 12 = slice_last uuid' 12"
  shows "updateItem E uuid item = updateItem E uuid' item"
proof (cases item)
  case (ImportDeclaration kind specs v r)
  show ?thesis
  proof (cases v)
    case (LString s)
    with assms ImportDeclaration show ?thesis
      by (auto simp: Let_def split: sum.splits option.splits)
  next
    case (LNonString b)
    with ImportDeclaration show ?thesis by simp
  qed
qed simp_all

lemma updateItems_uuids:
  "(\<forall>i < length items. generatesIdentifier E (items ! i)
       \<longrightarrow> slice_last (uuids (k + i)) 12 = slice_last (uuids' (k + i)) 12)
   \<Longrightarrow> updateItems E uuids k items = updateItems E uuids' k items"
proof (induction items arbitrary: k)
  case Nil
  show ?case by simp
next
  case (Cons x xs)
  have hd: "updateItem E (uuids k) x = updateItem E (uuids' k) x"
    using Cons.prems [rule_format, of 0] by (intro updateItem_uuid) simp
  have "\<forall>i < length xs. generatesIdentifier E (xs ! i)
          \<longrightarrow> slice_last (uuids (Suc k + i)) 12 = slice_last (uuids' (Suc k + i)) 12"
    using Cons.prems by (auto dest: spec [where x = "Suc i" for i])
  from Cons.IH [OF this] hd show ?case by (simp cong: sum.case_cong)
qed

lemma updateItems_randomUUID:
  "updateItems (E\<lparr>randomUUID := u\<rparr>) uuids k items = updateItems E uuids k items"
  by (induction items arbitrary: k) (simp_all add: updateItem_randomUUID cong: sum.case_cong)

lemma visit_randomUUID: "visit (E\<lparr>randomUUID := u\<rparr>) = visit E"
  by (rule ext) (simp add: visit_def loadSource_def cong: if_cong sum.case_cong)

lemma discover_randomUUID: "discover (E\<lparr>randomUUID := u\<rparr>) entryFilePath = discover E entryFilePath"
  by (simp add: discover_def visit_randomUUID entryFrame_def)

lemma emitFile_randomUUID:
  assumes "\<forall>(raw, ast) \<in> set astCache. \<forall>i < length (body ast).
             generatesIdentifier E (body ast ! i)
               \<longrightarrow> slice_last (uuids raw i) 12 = slice_last (randomUUID E raw i) 12"
  shows "emitFile (E\<lparr>randomUUID := uuids\<rparr>) outputDirectory commonRootPath astCache sf
           = emitFile E outputDirectory commonRootPath astCache sf"
proof (cases "map_of astCache (rawInputFile sf)")
  case None
  then show ?thesis by (simp add: emitFile_def)
next
  case (Some ast)
  obtain items where ast: "ast = Program items" by (cases ast)
  have "(rawInputFile sf, ast) \<in> set astCache" using Some by (rule map_of_SomeD)
  with assms ast have "\<forall>i < length items. generatesIdentifier E (items ! i)
          \<longrightarrow> slice_last (uuids (rawInputFile sf) (0 + i)) 12
                = slice_last (randomUUID E (rawInputFile sf) (0 + i)) 12"
    by fastforce
  from updateItems_uuids [OF this]
  have "updateImports (E\<lparr>randomUUID := uuids\<rparr>) (uuids (rawInputFile sf)) ast
          = updateImports E (randomUUID E (rawInputFile sf)) ast"
    by (simp add: ast updateItems_randomUUID)
  then show ?thesis using Some by (simp add: emitFile_def cong: sum.case_cong)
qed

lemma consistent_remove1: "consistent ws \<Longrightarrow> consistent (remove1 w ws)"
  unfolding consistent_def by (meson notin_set_remove1)

lemma performed_consistent:
  "performed ws d d' \<Longrightarrow> consistent ws \<Longrightarrow> d' = d ++ map_of ws"
proof (induction rule: performed.induct)
  case (none d)
  show ?case by simp
next
  case (one w ws d d')
  have c: "consistent (remove1 w ws)" using one.prems by (rule consistent_remove1)
  have d': "d' = d(fst w \<mapsto> snd w) ++ map_of (remove1 w ws)" using one.IH [OF c] .
  have sub: "set ws \<subseteq> insert w (set (remove1 w ws))"
    by (metis insert_iff set_remove1_eq subsetI in_set_remove1)
  show ?case
  proof (rule ext)
    fix k
    show "d' k = (d ++ map_of ws) k"
    proof (cases "map_of (remove1 w ws) k")
      case (Some t)
      then have "(k, t) \<in> set ws" by (meson map_of_SomeD notin_set_remove1)
      moreover obtain t' where t': "map_of ws k = Some t'"
        using calculation by (metis map_of_eq_None_iff not_None_eq fst_conv image_eqI)
      moreover have "(k, t') \<in> set ws" using t' by (rule map_of_SomeD)
      ultimately have "t' = t" using one.prems unfolding consistent_def by fastforce
      then show ?thesis using Some t' d' by (simp add: map_add_def)
    next
      case None
      then have nk: "k \<notin> fst ` set (remove1 w ws)" by (simp add: map_of_eq_None_iff)
      show ?thesis
      proof (cases "k = fst w")
        case True
        obtain t' where t': "map_of ws k = Some t'"
          using one.hyps(1) True by (metis map_of_eq_None_iff not_None_eq image_eqI)
        have "(k, t') \<in> set ws" using t' by (rule map_of_SomeD)
        then have "t' = snd w" using one.prems one.hyps(1) True unfolding consistent_def by fastforce
        then show ?thesis using None t' d' True by (simp add: map_add_def)
      next
        case False
        have "k \<notin> fst ` set ws" using nk sub False by auto
        then have "map_of ws k = None" by (simp add: map_of_eq_None_iff)
        then show ?thesis using None d' False by (simp add: map_add_def)
      qed
    qed
  qed
qed

lemma rmRecursive_again:
  "rmRecursive dir (rmRecursive dir d ++ m) ++ m = rmRecursive dir d ++ m"
  by (rule ext) (simp add: rmRecursive_def map_add_def split: option.splits)

lemma emitFiles_randomUUID:
  assumes "\<forall>(raw, ast) \<in> set astCache. \<forall>i < length (body ast).
             generatesIdentifier E (body ast ! i)
               \<longrightarrow> slice_last (uuids raw i) 12 = slice_last (randomUUID E raw i) 12"
  shows "emitFiles (E\<lparr>randomUUID := uuids\<rparr>) outputDirectory commonRootPath astCache files
           = emitFiles E outputDirectory commonRootPath astCache files"
  by (induction files) (simp_all add: emitFile_randomUUID [OF assms] cong: sum.case_cong)

lemma build_randomUUID:
  assumes "discover E entryFilePath = Some (Inr (astCache, files))"
    and "\<forall>(raw, ast) \<in> set astCache. \<forall>i < length (body ast).
           generatesIdentifier E (body ast ! i)
             \<longrightarrow> slice_last (uuids raw i) 12 = slice_last (randomUUID E raw i) 12"
  shows "build (E\<lparr>randomUUID := uuids\<rparr>) entryFilePath outputDirectory
           = build E entryFilePath outputDirectory"
  using assms(1)
  by (simp add: build_def discover_randomUUID entryFrame_def emitFiles_randomUUID [OF assms(2)]
           split: option.splits)

lemma emitFiles_Inr:
  "emitFiles E outputDirectory commonRootPath astCache files = Inr writes
   \<longleftrightarrow> map (emitFile E outputDirectory commonRootPath astCache) files = map Inr writes"
proof (induction files arbitrary: writes)
  case Nil
  show ?case by auto
next
  case (Cons sf files)
  note IH = Cons.IH
  show ?case
  proof (cases writes)
    case Nil
    then show ?thesis by (auto split: sum.splits)
  next
    case (Cons wr ws)
    then show ?thesis using IH [of ws] by (auto split: sum.splits)
  qed
qed

lemma buildRun_written:
  assumes run: "buildRun E entryFilePath outputDirectory d (Inr (), d')"
    and w: "build E entryFilePath outputDirectory = Some (Inr writes)"
  shows "performed (onDisk E writes) (rmRecursive (absolutePath E outputDirectory) d) d'"
  using run
proof (cases rule: buildRun.cases)
  case (allWritten astCache files commonRootPath writes')
  from w allWritten(1,2)
  have "emitFiles E outputDirectory commonRootPath astCache files = Inr writes"
    by (simp add: build_def)
  then have "map Inr writes' = (map Inr writes :: (error + string \<times> string) list)"
    using allWritten(3) by (simp add: emitFiles_Inr)
  then have "writes' = writes" by (simp add: inj_map_eq_map)
  then show ?thesis using allWritten(4) by simp
qed

text \<open>
  Writes in list order are one way of performing them. Two writes to one path can end
  with either text; \<open>main.ts\<close> importing \<open>./a.ts\<close> and \<open>./a.js\<close> has two such writes.
\<close>

lemma performed_in_order:
  "performed ws d (fold (\<lambda>w d. d(fst w \<mapsto> snd w)) ws d)"
proof (induction ws arbitrary: d)
  case Nil
  show ?case by (simp add: performed.none)
next
  case (Cons w ws)
  have r: "remove1 w (w # ws) = ws" by simp
  have m: "w \<in> set (w # ws)" by simp
  have "performed ws (d(fst w \<mapsto> snd w))
          (fold (\<lambda>w d. d(fst w \<mapsto> snd w)) ws (d(fst w \<mapsto> snd w)))"
    by (rule Cons)
  then have "performed (remove1 w (w # ws)) (d(fst w \<mapsto> snd w))
               (fold (\<lambda>w d. d(fst w \<mapsto> snd w)) ws (d(fst w \<mapsto> snd w)))"
    by (simp only: r)
  from performed.one [OF m this] show ?case by (simp only: fold.simps o_apply)
qed

lemma buildRun_of_build:
  assumes "build E entryFilePath outputDirectory = Some (Inr writes)"
    and "performed (onDisk E writes) (rmRecursive (absolutePath E outputDirectory) d) d'"
  shows "buildRun E entryFilePath outputDirectory d (Inr (), d')"
proof -
  from assms(1) obtain astCache files commonRootPath where
    "discover E entryFilePath = Some (Inr (astCache, files))"
    "commonRoot (map inputFile files) (filePath (entryFrame E entryFilePath)) = Some commonRootPath"
    "emitFiles E outputDirectory commonRootPath astCache files = Inr writes"
    by (auto simp: build_def split: option.splits sum.splits)
  then show ?thesis using assms(2) by (auto simp: emitFiles_Inr intro: buildRun.allWritten)
qed

lemma rmRecursive_empty: "rmRecursive dir Map.empty = Map.empty"
  by (simp add: rmRecursive_def)

lemma rmRecursive_below: "isBelow dir p \<Longrightarrow> rmRecursive dir (d(p \<mapsto> t)) = rmRecursive dir d"
  by (rule ext) (simp add: rmRecursive_def)

lemma performed_either_last:
  "performed [(p, t), (p, t')] d (d(p \<mapsto> t')) \<and> performed [(p, t), (p, t')] d (d(p \<mapsto> t))"
proof
  show "performed [(p, t), (p, t')] d (d(p \<mapsto> t'))"
    using performed_in_order [of "[(p, t), (p, t')]" d] by simp
  have m: "(p, t') \<in> set [(p, t), (p, t')]" by simp
  have "performed [(p, t)] (d(p \<mapsto> t')) (d(p \<mapsto> t))"
    using performed_in_order [of "[(p, t)]" "d(p \<mapsto> t')"] by simp
  then have r: "performed (remove1 (p, t') [(p, t), (p, t')])
                  (d(fst (p, t') \<mapsto> snd (p, t'))) (d(p \<mapsto> t))"
    by (cases "t = t'") auto
  from performed.one [OF m r] show "performed [(p, t), (p, t')] d (d(p \<mapsto> t))" .
qed

lemma clashing_records_written_to_one_path:
  "build clash_env ''main.ts'' ''/p/.jbuild''
     = Some (Inr [(''/p/.jbuild/p/.jbuild/main.mjs'',
                   textOf [''import { createRequire } from 'node:module';'',
                           ''const require = createRequire(import.meta.url);'',
                           ''import './a.ts.mjs';'', ''import './a.js.mjs';'']),
                  (''/p/.jbuild/p/.jbuild/a.mjs'',
                   textOf [''import { createRequire } from 'node:module';'',
                           ''const require = createRequire(import.meta.url);'',
                           ''console.log(1);'', ''console.log(1);'']),
                  (''/p/.jbuild/p/.jbuild/a.mjs'',
                   textOf [''import { createRequire } from 'node:module';'',
                           ''const require = createRequire(import.meta.url);'',
                           ''console.log(1);''])])"
  by code_simp

text \<open>
  C5, as stated: two builds of an unchanged entry file give byte-identical output, also
  when an interop shim with a synthesized binding is inserted. The synthesized binding
  is \<open>xnr_\<close> followed by the last twelve characters of \<open>randomUUID()\<close>. A first run of
  \<open>main.ts\<close>, which imports \<open>x\<close> and \<open>y\<close> from \<open>pkg\<close>, and a second run that draws another
  UUID leave different texts in the same output file.
\<close>

theorem second_build_writes_other_identifier:
  "buildRun interop_env ''main.ts'' ''/p/.jbuild'' Map.empty
     (Inr (),
      [''/p/.jbuild/p/.jbuild/main.mjs'' \<mapsto>
         textOf [''import { createRequire } from 'node:module';'',
                 ''const require = createRequire(import.meta.url);'',
                 ''import xnr_426614174000 from 'pkg';'',
                 ''const {x, z} = xnr_426614174000;'']])
   \<and> buildRun (interop_env\<lparr>randomUUID := (\<lambda>raw i. ''9b2d1c3e-7f60-4a5b-8c9d-0e1f2a3b4c5d'')\<rparr>)
       ''main.ts'' ''/p/.jbuild''
       [''/p/.jbuild/p/.jbuild/main.mjs'' \<mapsto>
         textOf [''import { createRequire } from 'node:module';'',
                 ''const require = createRequire(import.meta.url);'',
                 ''import xnr_426614174000 from 'pkg';'',
                 ''const {x, z} = xnr_426614174000;'']]
     (Inr (),
      [''/p/.jbuild/p/.jbuild/main.mjs'' \<mapsto>
         textOf [''import { createRequire } from 'node:module';'',
                 ''const require = createRequire(import.meta.url);'',
                 ''import xnr_0e1f2a3b4c5d from 'pkg';'',
                 ''const {x, z} = xnr_0e1f2a3b4c5d;'']])
   \<and> textOf [''import { createRequire } from 'node:module';'',
              ''const require = createRequire(import.meta.url);'',
              ''import xnr_426614174000 from 'pkg';'',
              ''const {x, z} = xnr_426614174000;'']
     \<noteq> textOf [''import { createRequire } from 'node:module';'',
                ''const require = createRequire(import.meta.url);'',
                ''import xnr_0e1f2a3b4c5d from 'pkg';'',
                ''const {x, z} = xnr_0e1f2a3b4c5d;'']"
proof -
  let ?P = "''/p/.jbuild/p/.jbuild/main.mjs''"
  let ?E2 = "interop_env\<lparr>randomUUID := (\<lambda>raw i. ''9b2d1c3e-7f60-4a5b-8c9d-0e1f2a3b4c5d'')\<rparr>"
  let ?T1 = "textOf [''import { createRequire } from 'node:module';'',
                 ''const require = createRequire(import.meta.url);'',
                 ''import xnr_426614174000 from 'pkg';'',
                 ''const {x, z} = xnr_426614174000;'']"
  let ?T2 = "textOf [''import { createRequire } from 'node:module';'',
                 ''const require = createRequire(import.meta.url);'',
                 ''import xnr_0e1f2a3b4c5d from 'pkg';'',
                 ''const {x, z} = xnr_0e1f2a3b4c5d;'']"
  have b1: "build interop_env ''main.ts'' ''/p/.jbuild'' = Some (Inr [(?P, ?T1)])"
    by code_simp
  have b2: "build ?E2 ''main.ts'' ''/p/.jbuild'' = Some (Inr [(?P, ?T2)])"
    by code_simp
  have p1: "onDisk interop_env [(?P, ?T1)] = [(?P, ?T1)]" by code_simp
  have p2: "onDisk ?E2 [(?P, ?T2)] = [(?P, ?T2)]" by code_simp
  have o1: "absolutePath interop_env ''/p/.jbuild'' = ''/p/.jbuild''" by code_simp
  have o2: "absolutePath ?E2 ''/p/.jbuild'' = ''/p/.jbuild''" by code_simp
  have below: "isBelow ''/p/.jbuild'' ?P" by code_simp
  have run1: "buildRun interop_env ''main.ts'' ''/p/.jbuild'' Map.empty (Inr (), [?P \<mapsto> ?T1])"
    using buildRun_of_build [OF b1 performed_in_order, of Map.empty]
    by (simp add: p1 o1 rmRecursive_empty)
  have run2: "buildRun ?E2 ''main.ts'' ''/p/.jbuild'' [?P \<mapsto> ?T1] (Inr (), [?P \<mapsto> ?T2])"
    using buildRun_of_build [OF b2 performed_in_order, of "[?P \<mapsto> ?T1]"]
    by (simp add: p2 o2 rmRecursive_below [OF below] rmRecursive_empty)
  have ne: "?T1 \<noteq> ?T2" by code_simp
  from run1 run2 ne show ?thesis by (intro conjI)
qed

text \<open>
  C5, amended: a second run of \<open>build\<close>, reading the same files as the first, leaves the
  disk as the first run left it, and below the output directory there is nothing but
  what the run has written, provided that the two runs draw random UUIDs with the same
  last twelve characters wherever an identifier is generated (so always when none is
  generated), and that no two records are written to the same path with different
  texts.
\<close>

theorem repeated_build_leaves_same_files:
  assumes d: "discover E entryFilePath = Some (Inr (astCache, files))"
    and w: "build E entryFilePath outputDirectory = Some (Inr writes)"
    and ids: "\<forall>(raw, ast) \<in> set astCache. \<forall>i < length (body ast).
                generatesIdentifier E (body ast ! i)
                  \<longrightarrow> slice_last (uuids raw i) 12 = slice_last (randomUUID E raw i) 12"
    and cons: "consistent (onDisk E writes)"
    and run1: "buildRun E entryFilePath outputDirectory d0 (Inr (), d1)"
    and run2: "buildRun (E\<lparr>randomUUID := uuids\<rparr>) entryFilePath outputDirectory d1 (Inr (), d2)"
  shows "d2 = d1
         \<and> filesBelow (absolutePath E outputDirectory) d1
             = filesBelow (absolutePath E outputDirectory) (map_of (onDisk E writes))"
proof -
  let ?dir = "absolutePath E outputDirectory"
  have w': "build (E\<lparr>randomUUID := uuids\<rparr>) entryFilePath outputDirectory = Some (Inr writes)"
    using build_randomUUID [OF d ids] w by simp
  have "performed (onDisk E writes) (rmRecursive ?dir d0) d1"
    using buildRun_written [OF run1 w] .
  then have d1: "d1 = rmRecursive ?dir d0 ++ map_of (onDisk E writes)"
    using cons by (rule performed_consistent)
  have "performed (onDisk E writes) (rmRecursive ?dir d1) d2"
    using buildRun_written [OF run2 w'] by (simp add: onDisk_def absolutePath_def)
  then have "d2 = rmRecursive ?dir d1 ++ map_of (onDisk E writes)"
    using cons by (rule performed_consistent)
  then have "d2 = d1" using d1 rmRecursive_again by metis
  moreover have "filesBelow ?dir d1 = filesBelow ?dir (map_of (onDisk E writes))"
    unfolding d1
    by (rule ext) (simp add: filesBelow_def rmRecursive_def map_add_def split: option.splits)
  ultimately show ?thesis by simp
qed

text \<open>
  Two runs of \<open>main.ts\<close>, which generates an identifier; the UUIDs differ and end alike.
  The first run starts with a stale file in the output directory, which it removes.
\<close>

theorem repeated_build_leaves_same_files_witness:
  "generatesIdentifier interop_env
     (ImportDeclaration None [ImportSpecifier ''x'' ''x'', ImportSpecifier ''z'' ''y'']
        (LString ''pkg'') (quoted ''pkg''))
   \<and> buildRun interop_env ''main.ts'' ''/p/.jbuild''
       [''/p/.jbuild/stale.mjs'' \<mapsto> ''console.log(0);'']
     (Inr (),
      [''/p/.jbuild/p/.jbuild/main.mjs'' \<mapsto>
         textOf [''import { createRequire } from 'node:module';'',
                 ''const require = createRequire(import.meta.url);'',
                 ''import xnr_426614174000 from 'pkg';'',
                 ''const {x, z} = xnr_426614174000;'']])
   \<and> buildRun (interop_env\<lparr>randomUUID := (\<lambda>raw i. ''ffffffff-ffff-4fff-bfff-426614174000'')\<rparr>)
       ''main.ts'' ''/p/.jbuild''
       [''/p/.jbuild/p/.jbuild/main.mjs'' \<mapsto>
         textOf [''import { createRequire } from 'node:module';'',
                 ''const require = createRequire(import.meta.url);'',
                 ''import xnr_426614174000 from 'pkg';'',
                 ''const {x, z} = xnr_426614174000;'']]
     (Inr (),
      [''/p/.jbuild/p/.jbuild/main.mjs'' \<mapsto>
         textOf [''import { createRequire } from 'node:module';'',
                 ''const require = createRequire(import.meta.url);'',
                 ''import xnr_426614174000 from 'pkg';'',
                 ''const {x, z} = xnr_426614174000;'']])
   \<and> filesBelow ''/p/.jbuild''
       [''/p/.jbuild/p/.jbuild/main.mjs'' \<mapsto>
         textOf [''import { createRequire } from 'node:module';'',
                 ''const require = createRequire(import.meta.url);'',
                 ''import xnr_426614174000 from 'pkg';'',
                 ''const {x, z} = xnr_426614174000;'']]
     = filesBelow ''/p/.jbuild''
         (map_of [(''/p/.jbuild/p/.jbuild/main.mjs'',
                   textOf [''import { createRequire } from 'node:module';'',
                           ''const require = createRequire(import.meta.url);'',
                           ''import xnr_426614174000 from 'pkg';'',
                           ''const {x, z} = xnr_426614174000;''])])"
proof -
  let ?P = "''/p/.jbuild/p/.jbuild/main.mjs''"
  let ?u = "\<lambda>(raw :: string) (i :: nat). ''ffffffff-ffff-4fff-bfff-426614174000''"
  let ?E2 = "interop_env\<lparr>randomUUID := ?u\<rparr>"
  let ?T1 = "textOf [''import { createRequire } from 'node:module';'',
                 ''const require = createRequire(import.meta.url);'',
                 ''import xnr_426614174000 from 'pkg';'',
                 ''const {x, z} = xnr_426614174000;'']"
  let ?import = "ImportDeclaration None [ImportSpecifier ''x'' ''x'', ImportSpecifier ''z'' ''y'']
                   (LString ''pkg'') (quoted ''pkg'')"
  let ?d0 = "[''/p/.jbuild/stale.mjs'' \<mapsto> ''console.log(0);'']"
  have g: "generatesIdentifier interop_env ?import" by code_simp
  have d: "discover interop_env ''main.ts''
             = Some (Inr ([(''/p/main.ts'', Program [?import])],
                          [\<lparr>rawInputFile = ''/p/main.ts'', inputFile = ''/p/main.ts'',
                            outputFormat = ''.mjs''\<rparr>]))"
    by code_simp
  have b1: "build interop_env ''main.ts'' ''/p/.jbuild'' = Some (Inr [(?P, ?T1)])"
    by code_simp
  have b2: "build ?E2 ''main.ts'' ''/p/.jbuild'' = Some (Inr [(?P, ?T1)])"
    by code_simp
  have p1: "onDisk interop_env [(?P, ?T1)] = [(?P, ?T1)]" by code_simp
  have o1: "absolutePath interop_env ''/p/.jbuild'' = ''/p/.jbuild''" by code_simp
  have stale: "isBelow ''/p/.jbuild'' ''/p/.jbuild/stale.mjs''" by code_simp
  have s: "slice_last (?u raw i) 12 = slice_last (randomUUID interop_env raw i) 12" for raw i
    by (simp add: interop_env_def project_def slice_last_def)
  have ids: "\<forall>(raw, ast) \<in> set [(''/p/main.ts'', Program [?import])].
               \<forall>i < length (body ast). generatesIdentifier interop_env (body ast ! i)
                 \<longrightarrow> slice_last (?u raw i) 12 = slice_last (randomUUID interop_env raw i) 12"
    using s by blast
  have cons: "consistent (onDisk interop_env [(?P, ?T1)])"
    by (simp only: p1) (simp add: consistent_def)
  have run1: "buildRun interop_env ''main.ts'' ''/p/.jbuild'' ?d0 (Inr (), [?P \<mapsto> ?T1])"
    using buildRun_of_build [OF b1 performed_in_order, of ?d0]
    by (simp add: p1 o1 rmRecursive_below [OF stale] rmRecursive_empty)
  have run2: "buildRun ?E2 ''main.ts'' ''/p/.jbuild'' [?P \<mapsto> ?T1]
                (Inr (), fold (\<lambda>w d. d(fst w \<mapsto> snd w)) (onDisk ?E2 [(?P, ?T1)])
                           (rmRecursive (absolutePath ?E2 ''/p/.jbuild'') [?P \<mapsto> ?T1]))"
    by (rule buildRun_of_build [OF b2 performed_in_order])
  note same = repeated_build_leaves_same_files [OF d b1 ids cons run1 run2]
  from same have "fold (\<lambda>w d. d(fst w \<mapsto> snd w)) (onDisk ?E2 [(?P, ?T1)])
          (rmRecursive (absolutePath ?E2 ''/p/.jbuild'') [?P \<mapsto> ?T1]) = [?P \<mapsto> ?T1]"
    by (rule conjunct1)
  with run2 have r2: "buildRun ?E2 ''main.ts'' ''/p/.jbuild'' [?P \<mapsto> ?T1] (Inr (), [?P \<mapsto> ?T1])"
    by (simp only:)
  from same have f: "filesBelow ''/p/.jbuild'' [?P \<mapsto> ?T1]
                       = filesBelow ''/p/.jbuild'' (map_of [(?P, ?T1)])"
    by (simp only: p1 o1)
  from g run1 r2 f show ?thesis by (intro conjI)
qed

end
